theory Spec2Isabelle
  imports Complex_Main
begin

section \<open>Decimal amounts\<close>

text \<open>
  Every amount in the bot goes through the decimal.js type \<^verbatim>\<open>Decimal\<close>. The library is a
  dependency, not part of the repository; it is modelled here as the exact base-10 number
  \<open>coeff / 10 ^ scale\<close>. The operations the sources call are \<^verbatim>\<open>plus\<close>, \<^verbatim>\<open>minus\<close>,
  \<^verbatim>\<open>times\<close>, \<^verbatim>\<open>lessThan\<close>, \<^verbatim>\<open>greaterThan\<close>, \<^verbatim>\<open>equals\<close>, \<^verbatim>\<open>toFixed\<close> and the constructor
  from a string. The sources never call \<^verbatim>\<open>Decimal.set\<close>, so the library works with its
  defaults: a precision of 20 significant digits and the rounding mode ROUND_HALF_UP.
  \<^verbatim>\<open>plus\<close>, \<^verbatim>\<open>minus\<close> and \<^verbatim>\<open>times\<close> round their result to that precision; the constructor
  and the comparisons are exact. The special values (NaN, the infinities) are outside
  the model, and so are the exponent, hexadecimal, binary and octal notations of the
  constructor.
\<close>

datatype decimal = Decimal (coeff: int) (scale: nat)

definition dval :: "decimal \<Rightarrow> rat" where
  "dval d = of_int (coeff d) / 10 ^ scale d"

definition align :: "decimal \<Rightarrow> nat \<Rightarrow> int" where
  "align d k = coeff d * 10 ^ (k - scale d)"

text \<open>
  \<open>excess a\<close> is the number of digits that \<open>a\<close> has beyond 20. \<open>finalise\<close> is the library's
  rounding of a result to 20 significant digits: the digits beyond are dropped, the last
  one kept goes up when the first one dropped is 5 or more, and the value keeps its sign.
\<close>

fun excess :: "nat \<Rightarrow> nat" where
  "excess a = (if a < 10 ^ 20 then 0 else Suc (excess (a div 10)))"

declare excess.simps [simp del]

definition finalise :: "decimal \<Rightarrow> decimal" where
  "finalise d =
     (let a = nat \<bar>coeff d\<bar>; k = excess a in
      if k = 0 then d
      else
        let m = int ((2 * a + 10 ^ k) div (2 * 10 ^ k));
            r = (if coeff d < 0 then - m else m)
        in if k \<le> scale d then Decimal r (scale d - k) else Decimal (r * 10 ^ (k - scale d)) 0)"

definition plus_d :: "decimal \<Rightarrow> decimal \<Rightarrow> decimal" where
  "plus_d x y =
     (let k = max (scale x) (scale y) in finalise (Decimal (align x k + align y k) k))"

definition minus_d :: "decimal \<Rightarrow> decimal \<Rightarrow> decimal" where
  "minus_d x y =
     (let k = max (scale x) (scale y) in finalise (Decimal (align x k - align y k) k))"

definition times_d :: "decimal \<Rightarrow> decimal \<Rightarrow> decimal" where
  "times_d x y = finalise (Decimal (coeff x * coeff y) (scale x + scale y))"

definition lessThan_d :: "decimal \<Rightarrow> decimal \<Rightarrow> bool" where
  "lessThan_d x y = (let k = max (scale x) (scale y) in align x k < align y k)"

definition greaterThan_d :: "decimal \<Rightarrow> decimal \<Rightarrow> bool" where
  "greaterThan_d x y = lessThan_d y x"

definition equals_d :: "decimal \<Rightarrow> decimal \<Rightarrow> bool" where
  "equals_d x y = (let k = max (scale x) (scale y) in align x k = align y k)"

text \<open>
  \<^verbatim>\<open>toFixed(dp)\<close> rounds to \<open>dp\<close> fractional digits in the library's default rounding mode,
  ROUND_HALF_UP (to the nearest neighbour, a tie away from zero). \<open>rescale dp d\<close> is the
  magnitude of the rounded value counted in units of \<open>10 ^ - dp\<close>.
\<close>

definition rescale :: "nat \<Rightarrow> decimal \<Rightarrow> nat" where
  "rescale dp d =
     (let a = nat \<bar>coeff d\<bar> in
      if scale d \<le> dp then a * 10 ^ (dp - scale d)
      else (2 * a + 10 ^ (scale d - dp)) div (2 * 10 ^ (scale d - dp)))"

definition digit_char :: "nat \<Rightarrow> char" where
  "digit_char n = ''0123456789'' ! (n mod 10)"

definition digit_val :: "char \<Rightarrow> nat option" where
  "digit_val c = map_of (zip ''0123456789'' [0, 1, 2, 3, 4, 5, 6, 7, 8, 9]) c"

text \<open>The integer part has no leading zero; the fraction has exactly \<open>k\<close> digits.\<close>

fun int_digits :: "nat \<Rightarrow> string" where
  "int_digits n =
     (if n < 10 then [digit_char n] else int_digits (n div 10) @ [digit_char (n mod 10)])"

declare int_digits.simps [simp del]

fun frac_digits :: "nat \<Rightarrow> nat \<Rightarrow> string" where
  "frac_digits 0 n = []"
| "frac_digits (Suc k) n = frac_digits k (n div 10) @ [digit_char (n mod 10)]"

text \<open>
  The sign of the rendering is the sign of the value before rounding, as in the library:
  a negative value that rounds to zero still renders with a minus sign.
\<close>

definition toFixed :: "nat \<Rightarrow> decimal \<Rightarrow> string" where
  "toFixed dp d =
     (let m = rescale dp d in
      (if coeff d < 0 then ''-'' else '''') @ int_digits (m div 10 ^ dp) @
      (if dp = 0 then '''' else CHR ''.'' # frac_digits dp (m mod 10 ^ dp)))"

text \<open>
  The constructor \<^verbatim>\<open>new Decimal(s)\<close> on a string: an optional sign, then digits with an
  optional point (\<^verbatim>\<open>\d+(\.\d*)?|\.\d+\<close>). \<open>None\<close> is the exception the library throws.
\<close>

definition all_digits :: "string \<Rightarrow> bool" where
  "all_digits s = list_all (\<lambda>c. digit_val c \<noteq> None) s"

definition nat_of_digits :: "string \<Rightarrow> nat" where
  "nat_of_digits s = foldl (\<lambda>acc c. 10 * acc + (case digit_val c of Some v \<Rightarrow> v | None \<Rightarrow> 0)) 0 s"

definition parse_unsigned :: "string \<Rightarrow> decimal option" where
  "parse_unsigned s =
     (let ip = takeWhile (\<lambda>c. c \<noteq> CHR ''.'') s;
          rest = dropWhile (\<lambda>c. c \<noteq> CHR ''.'') s
      in case rest of
           [] \<Rightarrow> if ip \<noteq> [] \<and> all_digits ip
                 then Some (Decimal (int (nat_of_digits ip)) 0) else None
         | _ # fp \<Rightarrow>
             if all_digits ip \<and> all_digits fp \<and> \<not> (ip = [] \<and> fp = [])
             then Some (Decimal (int (nat_of_digits (ip @ fp))) (length fp)) else None)"

definition negate_d :: "decimal \<Rightarrow> decimal" where
  "negate_d d = Decimal (- coeff d) (scale d)"

definition new_Decimal :: "string \<Rightarrow> decimal option" where
  "new_Decimal s =
     (case s of
        [] \<Rightarrow> None
      | c # r \<Rightarrow>
          if c = CHR ''-'' then map_option negate_d (parse_unsigned r)
          else if c = CHR ''+'' then parse_unsigned r
          else parse_unsigned s)"

section \<open>Formatting and validation (utils/format.js, utils/validation.js)\<close>

text \<open>
  \<^verbatim>\<open>formatUSDT\<close> and \<^verbatim>\<open>formatFiat\<close> build a Decimal from their argument and render it with
  6 and 2 fractional digits; when the constructor throws they return a zero.
\<close>

definition formatUSDT :: "string \<Rightarrow> string" where
  "formatUSDT amount =
     (case new_Decimal amount of Some d \<Rightarrow> toFixed 6 d | None \<Rightarrow> ''0.000000'')"

definition formatFiat :: "string \<Rightarrow> string" where
  "formatFiat amount =
     (case new_Decimal amount of Some d \<Rightarrow> toFixed 2 d | None \<Rightarrow> ''0.00'')"

text \<open>\<^verbatim>\<open>schemas.amount\<close>: the string builds a Decimal and the Decimal is greater than zero.\<close>

definition isValidAmount :: "string \<Rightarrow> bool" where
  "isValidAmount amount =
     (case new_Decimal amount of
        Some d \<Rightarrow> greaterThan_d d (Decimal 0 0)
      | None \<Rightarrow> False)"

section \<open>Transaction records (models/Transaction.js)\<close>

text \<open>
  The columns of the \<^verbatim>\<open>transactions\<close> table. \<^verbatim>\<open>DECIMAL(24, 6)\<close> is a fixed-point number with
  six fractional digits: \<open>amount\<close> and \<open>fee\<close> count millionths of a USDT, \<open>fiatAmount\<close>
  (\<^verbatim>\<open>DECIMAL(24, 2)\<close>) counts hundredths. The ORM's own \<^verbatim>\<open>createdAt\<close> and \<^verbatim>\<open>updatedAt\<close> and
  the unused \<^verbatim>\<open>paymentDetails\<close> are left out; no operation below reads them.
\<close>

datatype tx_type = deposit | withdrawal | exchange

datatype tx_status = pending | completed | failed | processing

datatype fiat_type = USD | UAH

record transaction =
  tx_id :: nat
  tx_type :: tx_type
  chatId :: string
  amount :: int
  fiatAmount :: "int option"
  fiatType :: "fiat_type option"
  walletAddress :: "string option"
  txHash :: "string option"
  status :: tx_status
  completedAt :: "int option"
  fee :: "int option"
  confirmations :: "int option"
  adminNotes :: "string option"

text \<open>
  The ORM hands a \<^verbatim>\<open>DECIMAL(24, 6)\<close> column to the code as a string with six fractional
  digits; \<open>amount_d\<close> is the Decimal that \<^verbatim>\<open>sum.plus(tx.amount)\<close> builds from it.
\<close>

definition amount_d :: "transaction \<Rightarrow> decimal" where
  "amount_d tx = Decimal (amount tx) 6"

text \<open>\<^verbatim>\<open>Transaction.getUserBalance\<close>: three queries, three sums, one difference, one clamp.\<close>

definition getUserBalance :: "transaction list \<Rightarrow> string \<Rightarrow> string" where
  "getUserBalance txs c =
     (let deposits = filter (\<lambda>tx. chatId tx = c \<and> tx_type tx = deposit
                                  \<and> status tx = completed) txs;
          withdrawals = filter (\<lambda>tx. chatId tx = c \<and> tx_type tx = withdrawal
                                  \<and> status tx \<in> {completed, pending, processing}) txs;
          exchanges = filter (\<lambda>tx. chatId tx = c \<and> tx_type tx = exchange
                                  \<and> status tx \<in> {completed, pending, processing}) txs;
          totalDeposits = foldl (\<lambda>sum tx. plus_d sum (amount_d tx)) (Decimal 0 0) deposits;
          totalWithdrawals = foldl (\<lambda>sum tx. plus_d sum (amount_d tx)) (Decimal 0 0) withdrawals;
          totalExchanges = foldl (\<lambda>sum tx. plus_d sum (amount_d tx)) (Decimal 0 0) exchanges;
          balance = minus_d (minus_d totalDeposits totalWithdrawals) totalExchanges
      in if lessThan_d balance (Decimal 0 0) then ''0.000000'' else toFixed 6 balance)"

text \<open>
  The balance rule in the words of the specification: the sum of the amounts of the
  account's records of one kind whose status is in a given set, and the difference of
  the three sums.
\<close>

definition sum_amounts :: "tx_type \<Rightarrow> tx_status set \<Rightarrow> transaction list \<Rightarrow> string \<Rightarrow> int" where
  "sum_amounts k S txs c =
     (\<Sum>tx\<leftarrow>txs. if chatId tx = c \<and> tx_type tx = k \<and> status tx \<in> S then amount tx else 0)"

definition raw_balance :: "transaction list \<Rightarrow> string \<Rightarrow> int" where
  "raw_balance txs c =
     sum_amounts deposit {completed} txs c
     - sum_amounts withdrawal {completed, processing, pending} txs c
     - sum_amounts exchange {completed, processing, pending} txs c"

text \<open>The value that \<^verbatim>\<open>toFixed(dp)\<close> renders: the argument rounded to \<open>dp\<close> digits.\<close>

definition rounded :: "nat \<Rightarrow> decimal \<Rightarrow> decimal" where
  "rounded dp d = Decimal (if coeff d < 0 then - int (rescale dp d) else int (rescale dp d)) dp"

text \<open>
  The volume of a ledger is the sum of the magnitudes of its amounts, in millionths, and
  the volume of an account is the volume of its own records. While it stays below
  \<open>10 ^ 20\<close>, no sum or difference of the account's amounts needs more than 20 digits.
\<close>

definition volume :: "transaction list \<Rightarrow> int" where
  "volume txs = (\<Sum>tx\<leftarrow>txs. \<bar>amount tx\<bar>)"

definition account_volume :: "transaction list \<Rightarrow> string \<Rightarrow> int" where
  "account_volume txs c = volume (filter (\<lambda>tx. chatId tx = c) txs)"

section \<open>The store and the process state\<close>

text \<open>
  The state the handlers share: the \<^verbatim>\<open>users\<close> and \<^verbatim>\<open>transactions\<close> tables, the singleton
  row of \<^verbatim>\<open>exchange_rates\<close>, and the in-memory map \<^verbatim>\<open>depositRequests\<close> of the user bot.
  \<open>submitted\<close> lists the token transfers the hot wallet has sent to the chain, recipient
  and amount in token units. The database is taken to answer every query: a failing
  \<^verbatim>\<open>save\<close> or \<^verbatim>\<open>findAll\<close> is not modelled.
\<close>

record deposit_request =
  dr_amount :: string
  dr_timestamp :: int

record exchange_rate =
  rateUSD :: int
  rateUAH :: int

record state =
  users :: "string set"
  transactions :: "transaction list"
  rates :: "exchange_rate option"
  depositRequests :: "string \<rightharpoonup> deposit_request"
  submitted :: "(string option \<times> nat) list"

record config =
  usdtContractAddress :: string
  depositAddress :: string
  withdrawalFee :: decimal
  minConfirmations :: int
  adminChatId :: string

text \<open>
  The \<^verbatim>\<open>users\<close> table has the chat id as its primary key. Every command of the user bot
  starts with \<^verbatim>\<open>ensureUserExists\<close> (a \<^verbatim>\<open>findByPk\<close>) and, when no row is found, the bot's
  \<^verbatim>\<open>registerUser\<close>, which calls \<^verbatim>\<open>User.findOrCreateUser\<close>: the row is inserted if it is
  missing. No code deletes a row. The user name, which no operation below reads, is left
  out, so the table is the set of its keys.
\<close>

definition registerUser :: "string \<Rightarrow> state \<Rightarrow> state" where
  "registerUser c s = s\<lparr>users := insert c (users s)\<rparr>"

text \<open>
  The primary key is a database sequence: a new row gets an id above every id in use.
  A value written to a \<^verbatim>\<open>DECIMAL(24, 6)\<close> column is rounded to six fractional digits by
  the database; what does not build a number makes the insert fail. The column holds 24
  digits: an insert of \<open>10 ^ 18\<close> or more fails too, which is not modelled here, where an
  amount is an integer of any size.
\<close>

definition next_id :: "transaction list \<Rightarrow> nat" where
  "next_id txs = Suc (foldr max (map tx_id txs) 0)"

definition to_column :: "nat \<Rightarrow> decimal \<Rightarrow> int" where
  "to_column dp d = coeff (rounded dp d)"

definition create :: "transaction \<Rightarrow> state \<Rightarrow> transaction \<times> state" where
  "create tx s =
     (let tx' = tx\<lparr>tx_id := next_id (transactions s)\<rparr>
      in (tx', s\<lparr>transactions := transactions s @ [tx']\<rparr>))"

definition save :: "transaction \<Rightarrow> state \<Rightarrow> state" where
  "save tx s =
     s\<lparr>transactions := map (\<lambda>r. if tx_id r = tx_id tx then tx else r) (transactions s)\<rparr>"

definition findByPk :: "nat \<Rightarrow> state \<Rightarrow> transaction option" where
  "findByPk i s = find (\<lambda>r. tx_id r = i) (transactions s)"

definition blank :: transaction where
  "blank = \<lparr>tx_id = 0, tx_type = deposit, chatId = [], amount = 0, fiatAmount = None,
     fiatType = None, walletAddress = None, txHash = None, status = pending,
     completedAt = None, fee = None, confirmations = None, adminNotes = None\<rparr>"

definition createDeposit :: "string \<Rightarrow> string \<Rightarrow> state \<Rightarrow> (transaction \<times> state) option" where
  "createDeposit c amt s =
     (case new_Decimal amt of
        None \<Rightarrow> None
      | Some d \<Rightarrow> Some (create (blank\<lparr>tx_type := deposit, chatId := c,
                                      amount := to_column 6 d, status := pending\<rparr>) s))"

definition createWithdrawal ::
  "string \<Rightarrow> string \<Rightarrow> string \<Rightarrow> decimal \<Rightarrow> state \<Rightarrow> (transaction \<times> state) option" where
  "createWithdrawal c amt address fee_d s =
     (case new_Decimal amt of
        None \<Rightarrow> None
      | Some d \<Rightarrow> Some (create (blank\<lparr>tx_type := withdrawal, chatId := c,
                                      amount := to_column 6 d, walletAddress := Some address,
                                      fee := Some (to_column 6 fee_d), status := pending\<rparr>) s))"

definition createExchange ::
  "string \<Rightarrow> string \<Rightarrow> string \<Rightarrow> fiat_type \<Rightarrow> state \<Rightarrow> (transaction \<times> state) option" where
  "createExchange c amt fiat ft s =
     (case (new_Decimal amt, new_Decimal fiat) of
        (Some d, Some f) \<Rightarrow>
          Some (create (blank\<lparr>tx_type := exchange, chatId := c, amount := to_column 6 d,
                               fiatAmount := Some (to_column 2 f), fiatType := Some ft,
                               status := pending\<rparr>) s)
      | _ \<Rightarrow> None)"

section \<open>The chain, as the blockchain service sees it (services/blockchain.js)\<close>

text \<open>
  The provider, the wallet and the token contract are outside the program. Each call of
  the service is a field of \<open>chain\<close>; \<open>Inl\<close> carries the message of the error the call
  throws. \<^verbatim>\<open>parseLog\<close> on one log of a receipt has three outcomes: a decoded \<^verbatim>\<open>Transfer\<close>
  event (the only event of the ABI), \<^verbatim>\<open>null\<close> for a log of another event, or an exception.
\<close>

datatype parsed_log = TransferEvent string string nat | NoMatch | ParseThrows

record log_entry =
  log_parsed :: parsed_log
  log_address :: string

record receipt =
  blockNumber :: int
  logs :: "log_entry list"

record chain =
  getTransactionReceipt :: "string \<Rightarrow> string + receipt option"
  getBlockNumber :: "string + int"
  decimals :: "string + nat"
  isAddress :: "string \<Rightarrow> bool"
  parseTokenAmount :: "int \<Rightarrow> string + nat"
  getFeeData :: "string + unit"
  estimateGas :: "string option \<Rightarrow> nat \<Rightarrow> string + nat"
  transfer :: "string option \<Rightarrow> nat \<Rightarrow> nat \<Rightarrow> string + string"
  wait :: "string \<Rightarrow> string + unit"

definition lower_char :: "char \<Rightarrow> char" where
  "lower_char c =
     (case map_of (zip ''ABCDEFGHIJKLMNOPQRSTUVWXYZ'' ''abcdefghijklmnopqrstuvwxyz'') c of
        Some l \<Rightarrow> l
      | None \<Rightarrow> c)"

definition toLowerCase :: "string \<Rightarrow> string" where
  "toLowerCase s = map lower_char s"

datatype verify_reason =
    ReceiptNotFound
  | InsufficientConfirmations int int
  | NoTransferEvent
  | WrongRecipient
  | AmountMismatch string decimal
  | ErrorVerifying string

datatype verification = Verified decimal int | NotVerified verify_reason

definition null_parsed_error :: string where
  "null_parsed_error =
     ''Cannot read properties of null (reading '' @ [CHR 0x27] @ ''name'' @ [CHR 0x27] @ '')''"

definition decimal_error :: string where
  "decimal_error = ''[DecimalError] Invalid argument''"

text \<open>
  The \<^verbatim>\<open>map\<close>/\<^verbatim>\<open>filter\<close>/\<^verbatim>\<open>[0]\<close> chain over the logs. A log whose parsing threw became \<^verbatim>\<open>null\<close>
  and is dropped; on a log that parsed to \<^verbatim>\<open>null\<close> the test \<^verbatim>\<open>log.parsed.name\<close> throws.
\<close>

definition find_transfer :: "config \<Rightarrow> log_entry list \<Rightarrow> string + log_entry option" where
  "find_transfer cfg ls =
     (let mapped = filter (\<lambda>l. log_parsed l \<noteq> ParseThrows) ls
      in if list_ex (\<lambda>l. log_parsed l = NoMatch) mapped then Inl null_parsed_error
         else case filter (\<lambda>l. toLowerCase (toLowerCase (log_address l))
                               = toLowerCase (usdtContractAddress cfg)) mapped of
                [] \<Rightarrow> Inr None
              | l # _ \<Rightarrow> Inr (Some l))"

text \<open>
  \<^verbatim>\<open>verifyDepositTransaction\<close>. The transferred value \<open>v\<close> with the token's \<open>dec\<close> decimals
  is the Decimal \<open>v / 10 ^ dec\<close> that the source builds from \<^verbatim>\<open>formatUnits\<close>.
\<close>

definition check_amount :: "chain \<Rightarrow> string \<Rightarrow> nat \<Rightarrow> int \<Rightarrow> verification" where
  "check_amount ch expectedAmount v confs =
     (case decimals ch of
        Inl e \<Rightarrow> NotVerified (ErrorVerifying e)
      | Inr dec \<Rightarrow>
          let amountDecimal = Decimal (int v) dec in
          (case new_Decimal expectedAmount of
             None \<Rightarrow> NotVerified (ErrorVerifying decimal_error)
           | Some expectedDecimal \<Rightarrow>
               if \<not> equals_d amountDecimal expectedDecimal
               then NotVerified (AmountMismatch expectedAmount amountDecimal)
               else Verified amountDecimal confs))"

definition verifyDepositTransaction :: "config \<Rightarrow> chain \<Rightarrow> string \<Rightarrow> string \<Rightarrow> verification" where
  "verifyDepositTransaction cfg ch txh expectedAmount =
     (case getTransactionReceipt ch txh of
        Inl e \<Rightarrow> NotVerified (ErrorVerifying e)
      | Inr None \<Rightarrow> NotVerified ReceiptNotFound
      | Inr (Some rc) \<Rightarrow>
          (case getBlockNumber ch of
             Inl e \<Rightarrow> NotVerified (ErrorVerifying e)
           | Inr currentBlock \<Rightarrow>
               let confs = currentBlock - blockNumber rc in
               if confs < minConfirmations cfg
               then NotVerified (InsufficientConfirmations confs (minConfirmations cfg))
               else
                 (case find_transfer cfg (logs rc) of
                    Inl e \<Rightarrow> NotVerified (ErrorVerifying e)
                  | Inr None \<Rightarrow> NotVerified NoTransferEvent
                  | Inr (Some ev) \<Rightarrow>
                      (case log_parsed ev of
                         TransferEvent sender recipient v \<Rightarrow>
                           if toLowerCase recipient \<noteq> toLowerCase (depositAddress cfg)
                           then NotVerified WrongRecipient
                           else check_amount ch expectedAmount v confs
                       | _ \<Rightarrow> NotVerified (ErrorVerifying null_parsed_error)))))"

text \<open>
  \<^verbatim>\<open>processWithdrawal\<close>. The \<^verbatim>\<open>try\<close> block runs until the first call that throws; the
  \<^verbatim>\<open>catch\<close> block marks the record failed with the message in its notes. The code saves
  the record three times on the way to success: as processing (\<open>mark_processing\<close>), with
  the hash once the transfer is sent, and as completed once it is mined.

  The gas limit of the transfer is \<^verbatim>\<open>Math.floor(gasEstimate * 1.2)\<close>. The sources use version
  6 of the ethers library (\<^verbatim>\<open>ethers.parseUnits\<close>, \<^verbatim>\<open>contract.transfer.estimateGas\<close>), in which
  the estimate is a \<^verbatim>\<open>bigint\<close>; the product of a \<^verbatim>\<open>bigint\<close> and the number 1.2 throws a
  \<^verbatim>\<open>TypeError\<close>. It is thrown while the arguments of \<^verbatim>\<open>transfer\<close> are evaluated, so the
  call is not made.
\<close>

datatype withdrawal_result = Success string | Failure string

definition fail_withdrawal :: "transaction \<Rightarrow> string \<Rightarrow> state \<Rightarrow> withdrawal_result \<times> state" where
  "fail_withdrawal tx e s =
     (Failure e, save (tx\<lparr>status := failed, adminNotes := Some (''Failed: '' @ e)\<rparr>) s)"

definition mixed_types_error :: string where
  "mixed_types_error = ''Cannot mix BigInt and other types, use explicit conversions''"

definition gasLimit :: "nat \<Rightarrow> string + nat" where
  "gasLimit gasEstimate = Inl mixed_types_error"

definition mark_processing :: "transaction \<Rightarrow> state \<Rightarrow> transaction \<times> state" where
  "mark_processing tx s = (let t1 = tx\<lparr>status := processing\<rparr> in (t1, save t1 s))"

definition send_transfer :: "chain \<Rightarrow> transaction \<Rightarrow> string + (nat \<times> string)" where
  "send_transfer ch tx =
     (case parseTokenAmount ch (amount tx) of
        Inl e \<Rightarrow> Inl e
      | Inr amountToSend \<Rightarrow>
          (case getFeeData ch of
             Inl e \<Rightarrow> Inl e
           | Inr _ \<Rightarrow>
               (case estimateGas ch (walletAddress tx) amountToSend of
                  Inl e \<Rightarrow> Inl e
                | Inr gasEstimate \<Rightarrow>
                    (case gasLimit gasEstimate of
                       Inl e \<Rightarrow> Inl e
                     | Inr gas_limit \<Rightarrow>
                         (case transfer ch (walletAddress tx) amountToSend gas_limit of
                            Inl e \<Rightarrow> Inl e
                          | Inr h \<Rightarrow> Inr (amountToSend, h))))))"

definition processWithdrawal ::
  "chain \<Rightarrow> int \<Rightarrow> transaction \<Rightarrow> state \<Rightarrow> withdrawal_result \<times> state" where
  "processWithdrawal ch now tx s =
     (let (t1, s1) = mark_processing tx s
      in case send_transfer ch t1 of
           Inl e \<Rightarrow> fail_withdrawal t1 e s1
         | Inr (amountToSend, h) \<Rightarrow>
             let t2 = t1\<lparr>txHash := Some h\<rparr>;
                 s2 = save t2 (s1\<lparr>submitted := submitted s1 @ [(walletAddress t1, amountToSend)]\<rparr>)
             in (case wait ch h of
                   Inl e \<Rightarrow> fail_withdrawal t2 e s2
                 | Inr _ \<Rightarrow>
                     (Success h,
                      save (t2\<lparr>status := completed, completedAt := Some now,
                               confirmations := Some 1\<rparr>) s2)))"

section \<open>The user bot (bots/user-bot.js)\<close>

text \<open>\<^verbatim>\<open>schemas.txHash\<close>: the regular expression \<^verbatim>\<open>^0x([A-Fa-f0-9]{64})$\<close>.\<close>

definition is_hex :: "char \<Rightarrow> bool" where
  "is_hex c = (c \<in> set ''0123456789abcdefABCDEF'')"

definition isValidTxHash :: "string \<Rightarrow> bool" where
  "isValidTxHash h = (take 2 h = ''0x'' \<and> length h = 66 \<and> list_all is_hex (drop 2 h))"

text \<open>
  \<^verbatim>\<open>/deposit\<close>: \<open>r\<close> is \<^verbatim>\<open>Math.floor(Math.random() * 10000)\<close>, a number from 0 to 9999, and
  \<open>r / 10000\<close> with four digits is the random suffix. The base amount is the word after
  the command, \<^verbatim>\<open>'10'\<close> when there is none. A base that builds no Decimal throws, and the
  handler answers with its error message.
\<close>

datatype deposit_reply = DepositInstructions string | DepositError

definition deposit_cmd ::
  "int \<Rightarrow> nat \<Rightarrow> string \<Rightarrow> string option \<Rightarrow> state \<Rightarrow> deposit_reply \<times> state" where
  "deposit_cmd now r c arg s =
     (let s1 = registerUser c s;
          randomAmount = Decimal (int r) 4;
          base = (case arg of None \<Rightarrow> ''10'' | Some a \<Rightarrow> if a = [] then ''10'' else a)
      in case new_Decimal base of
           None \<Rightarrow> (DepositError, s1)
         | Some b \<Rightarrow>
             let depositAmount = toFixed 6 (plus_d b randomAmount)
             in (DepositInstructions depositAmount,
                 s1\<lparr>depositRequests := (depositRequests s1)
                       (c \<mapsto> \<lparr>dr_amount = depositAmount, dr_timestamp = now\<rparr>)\<rparr>))"

text \<open>
  \<^verbatim>\<open>/confirm <txHash>\<close>. \<open>now\<close> is \<^verbatim>\<open>Date.now()\<close>, in milliseconds. The deposit record is
  created pending and completed by a second write; its amount is the amount of the
  request, not the amount read from the chain.
\<close>

datatype confirm_reply =
    InvalidTxHashFormat
  | NoActiveDepositRequest
  | DepositRequestExpired
  | VerificationFailed verify_reason
  | DepositVerified string nat string string
  | ConfirmError

definition confirm ::
  "config \<Rightarrow> chain \<Rightarrow> int \<Rightarrow> string \<Rightarrow> string \<Rightarrow> state \<Rightarrow> confirm_reply \<times> state" where
  "confirm cfg ch now c txh s =
     (let s1 = registerUser c s in
      if \<not> isValidTxHash txh then (InvalidTxHashFormat, s1)
      else case depositRequests s1 c of
             None \<Rightarrow> (NoActiveDepositRequest, s1)
           | Some depositRequest \<Rightarrow>
               if now - dr_timestamp depositRequest > 24 * 60 * 60 * 1000
               then (DepositRequestExpired,
                     s1\<lparr>depositRequests := (depositRequests s1)(c := None)\<rparr>)
               else
                 (case verifyDepositTransaction cfg ch txh (dr_amount depositRequest) of
                    NotVerified reason \<Rightarrow> (VerificationFailed reason, s1)
                  | Verified _ confs \<Rightarrow>
                      (case createDeposit c (dr_amount depositRequest) s1 of
                         None \<Rightarrow> (ConfirmError, s1)
                       | Some (tx, s2) \<Rightarrow>
                           let tx' = tx\<lparr>txHash := Some txh, status := completed,
                                        completedAt := Some now, confirmations := Some confs\<rparr>;
                               s3 = save tx' s2;
                               s4 = s3\<lparr>depositRequests := (depositRequests s3)(c := None)\<rparr>;
                               balance = getUserBalance (transactions s4) c
                           in (DepositVerified (toFixed 6 (amount_d tx')) (tx_id tx') txh
                                 (formatUSDT balance), s4))))"

text \<open>
  \<^verbatim>\<open>/withdraw amount,walletAddress\<close>, from the parsed command on: \<open>amt\<close> and \<open>address\<close> are
  the two trimmed parts, which \<^verbatim>\<open>parseWithdrawCommand\<close> accepts when the amount is valid and
  the address is one. The fee is the number \<^verbatim>\<open>config.transactions.withdrawalFee\<close>, taken as
  the Decimal that \<^verbatim>\<open>plus\<close> builds from it.
\<close>

datatype withdraw_reply =
    InvalidWithdrawFormat
  | InsufficientBalance string string
  | WithdrawalFailed string
  | WithdrawalSuccessful string string
  | WithdrawError

definition withdraw ::
  "config \<Rightarrow> chain \<Rightarrow> int \<Rightarrow> string \<Rightarrow> string \<Rightarrow> string \<Rightarrow> state \<Rightarrow> withdraw_reply \<times> state" where
  "withdraw cfg ch now c amt address s =
     (let s1 = registerUser c s in
      if \<not> (isValidAmount amt \<and> isAddress ch address) then (InvalidWithdrawFormat, s1)
      else
        let balance = getUserBalance (transactions s1) c in
        (case (new_Decimal amt, new_Decimal balance) of
           (Some a, Some b) \<Rightarrow>
             let totalAmount = plus_d a (withdrawalFee cfg) in
             if lessThan_d b totalAmount
             then (InsufficientBalance (toFixed 6 totalAmount) (formatUSDT balance), s1)
             else
               (case createWithdrawal c amt address (withdrawalFee cfg) s1 of
                  None \<Rightarrow> (WithdrawError, s1)
                | Some (tx, s2) \<Rightarrow>
                    (case processWithdrawal ch now tx s2 of
                       (Failure e, s3) \<Rightarrow> (WithdrawalFailed e, s3)
                     | (Success h, s3) \<Rightarrow>
                         (WithdrawalSuccessful h
                            (formatUSDT (getUserBalance (transactions s3) c)), s3)))
         | _ \<Rightarrow> (WithdrawError, s1)))"

section \<open>The exchange service and the admin bot (services/exchange.js, bots/admin-bot.js)\<close>

text \<open>
  \<^verbatim>\<open>ExchangeRate.getCurrentRates\<close> creates the singleton row with the default rates 1.0 and
  39.5 when it is missing.
\<close>

definition getCurrentRates :: "state \<Rightarrow> exchange_rate \<times> state" where
  "getCurrentRates s =
     (case rates s of
        Some r \<Rightarrow> (r, s)
      | None \<Rightarrow>
          let r = \<lparr>rateUSD = 1000000, rateUAH = 39500000\<rparr> in (r, s\<lparr>rates := Some r\<rparr>))"

datatype exchange_error = UserNotFound | InsufficientAvailable string | ExchangeError string

datatype exchange_result = ExchangeCreated transaction string | ExchangeFailed exchange_error

definition processExchangeRequest ::
  "string \<Rightarrow> string \<Rightarrow> fiat_type \<Rightarrow> state \<Rightarrow> exchange_result \<times> state" where
  "processExchangeRequest c amt ft s =
     (if c \<notin> users s then (ExchangeFailed UserNotFound, s)
      else
        let balance = getUserBalance (transactions s) c in
        (case (new_Decimal amt, new_Decimal balance) of
           (Some amountDecimal, Some b) \<Rightarrow>
             if greaterThan_d amountDecimal b
             then (ExchangeFailed (InsufficientAvailable (formatUSDT balance)), s)
             else
               let (rs, s1) = getCurrentRates s;
                   rate = Decimal (if ft = USD then rateUSD rs else rateUAH rs) 6;
                   fiat = toFixed 2 (times_d amountDecimal rate)
               in (case createExchange c amt fiat ft s1 of
                     None \<Rightarrow> (ExchangeFailed (ExchangeError decimal_error), s1)
                   | Some (tx, s2) \<Rightarrow> (ExchangeCreated tx fiat, s2))
         | _ \<Rightarrow> (ExchangeFailed (ExchangeError decimal_error), s)))"

text \<open>
  Both admin commands look the record up with the text that follows the command,
  \<^verbatim>\<open>match[1]\<close> of \<^verbatim>\<open>/\/complete_exchange (.+)/\<close> and \<^verbatim>\<open>/\/reject_exchange (.+)/\<close>: the whole rest
  of the line, not its first word. The ORM sends the text to the database as a quoted
  literal, and the database (PostgreSQL) reads it as the integer key: blanks around it
  are skipped, a sign is allowed, the rest must be decimal digits within the range of a
  32-bit integer. For any other text the query fails, and \<^verbatim>\<open>findByPk\<close> throws. No record
  has a negative key.
\<close>

definition is_space :: "char \<Rightarrow> bool" where
  "is_space c = (c \<in> set [CHR '' '', CHR 0x09, CHR 0x0A, CHR 0x0B, CHR 0x0C, CHR 0x0D])"

definition trim_blanks :: "string \<Rightarrow> string" where
  "trim_blanks s = rev (dropWhile is_space (rev (dropWhile is_space s)))"

definition pk_of_text :: "string \<Rightarrow> int option" where
  "pk_of_text key =
     (let t = trim_blanks key;
          negative = (take 1 t = ''-'');
          ds = (if take 1 t = ''-'' \<or> take 1 t = ''+'' then drop 1 t else t)
      in if ds = [] \<or> \<not> all_digits ds then None
         else
           let n = int (nat_of_digits ds) in
           if negative then (if 2147483648 < n then None else Some (- n))
           else (if 2147483647 < n then None else Some n))"

definition findByPk_text :: "string \<Rightarrow> state \<Rightarrow> unit + transaction option" where
  "findByPk_text key s =
     (case pk_of_text key of
        None \<Rightarrow> Inl ()
      | Some i \<Rightarrow> Inr (if i < 0 then None else findByPk (nat i) s))"

text \<open>
  \<^verbatim>\<open>completeExchangeTransaction\<close>. The notes are written only when they are not empty. An
  exception of the lookup is caught and comes back as an error of the result.
\<close>

datatype decision_error = TransactionNotFound | NotAnExchange | NotPending tx_status | LookupThrew

definition completeExchangeTransaction ::
  "int \<Rightarrow> string \<Rightarrow> string \<Rightarrow> state \<Rightarrow> (decision_error + transaction) \<times> state" where
  "completeExchangeTransaction now transactionId notes s =
     (case findByPk_text transactionId s of
        Inl _ \<Rightarrow> (Inl LookupThrew, s)
      | Inr None \<Rightarrow> (Inl TransactionNotFound, s)
      | Inr (Some tx) \<Rightarrow>
          if tx_type tx \<noteq> exchange then (Inl NotAnExchange, s)
          else if status tx \<noteq> pending then (Inl (NotPending (status tx)), s)
          else
            let t1 = tx\<lparr>status := completed, completedAt := Some now\<rparr>;
                t2 = (if notes \<noteq> [] then t1\<lparr>adminNotes := Some notes\<rparr> else t1)
            in (Inr t2, save t2 s))"

text \<open>\<^verbatim>\<open>String.prototype.split\<close> on one character, and \<^verbatim>\<open>Array.prototype.join\<close>.\<close>

fun split_on :: "char \<Rightarrow> string \<Rightarrow> string list" where
  "split_on c [] = [[]]"
| "split_on c (x # xs) =
     (if x = c then [] # split_on c xs
      else (case split_on c xs of w # ws \<Rightarrow> (x # w) # ws | [] \<Rightarrow> [[x]]))"

fun join_with :: "char \<Rightarrow> string list \<Rightarrow> string" where
  "join_with c [] = []"
| "join_with c [w] = w"
| "join_with c (w # v # ws) = w @ c # join_with c (v # ws)"

text \<open>
  The \<^verbatim>\<open>/reject_exchange\<close> handler runs on a message whose text matches the regular
  expression \<^verbatim>\<open>/\/reject_exchange (.+)/\<close>. \<open>match_command\<close> is \<^verbatim>\<open>match[1]\<close>: what follows the
  first occurrence of the command and a space, up to the end of that line, and it is
  not empty (\<^verbatim>\<open>.\<close> stands for any character but a line break; the strings here have line
  feed and carriage return as their line breaks). A message that does not match gets no
  answer. The reason is what follows the second word of the whole text, the default text
  when the text has two words. After the record is saved the handler reads the owner's
  row to build its replies; without that row it throws, and the reply is the one of the
  \<^verbatim>\<open>catch\<close> block.
\<close>

definition is_line_break :: "char \<Rightarrow> bool" where
  "is_line_break c = (c \<in> set [CHR 0x0A, CHR 0x0D])"

fun match_command :: "string \<Rightarrow> string \<Rightarrow> string option" where
  "match_command cmd [] = None"
| "match_command cmd (x # xs) =
     (let m = takeWhile (\<lambda>c. \<not> is_line_break c) (drop (length cmd) (x # xs))
      in if take (length cmd) (x # xs) = cmd \<and> m \<noteq> [] then Some m
         else match_command cmd xs)"

datatype reject_reply =
    Unanswered
  | NotAuthorized
  | RejectFailed decision_error
  | ExchangeRejected transaction string
  | RejectError

definition default_rejection :: string where
  "default_rejection = ''Exchange request was rejected by the administrator.''"

definition isAdmin :: "config \<Rightarrow> string \<Rightarrow> bool" where
  "isAdmin cfg c = (c = adminChatId cfg)"

definition rejection_reason :: "string \<Rightarrow> string" where
  "rejection_reason msg_text =
     (let parts = split_on CHR '' '' msg_text
      in if length parts > 2 then join_with CHR '' '' (drop 2 parts) else default_rejection)"

definition reject_exchange ::
  "config \<Rightarrow> string \<Rightarrow> string \<Rightarrow> state \<Rightarrow> reject_reply \<times> state" where
  "reject_exchange cfg c msg_text s =
     (case match_command ''/reject_exchange '' msg_text of
        None \<Rightarrow> (Unanswered, s)
      | Some transactionId \<Rightarrow>
          if \<not> isAdmin cfg c then (NotAuthorized, s)
          else
            let rejectionReason = rejection_reason msg_text in
            (case findByPk_text transactionId s of
               Inl _ \<Rightarrow> (RejectError, s)
             | Inr None \<Rightarrow> (RejectFailed TransactionNotFound, s)
             | Inr (Some tx) \<Rightarrow>
                 if tx_type tx \<noteq> exchange then (RejectFailed NotAnExchange, s)
                 else if status tx \<noteq> pending then (RejectFailed (NotPending (status tx)), s)
                 else
                   let t1 = tx\<lparr>status := failed, adminNotes := Some rejectionReason\<rparr>;
                       s1 = save t1 s
                   in if chatId t1 \<in> users s1 then (ExchangeRejected t1 rejectionReason, s1)
                      else (RejectError, s1)))"

text \<open>What a confirmation does once the verification has succeeded.\<close>

definition settled :: "string \<Rightarrow> string \<Rightarrow> int \<Rightarrow> int \<Rightarrow> decimal \<Rightarrow> state \<Rightarrow> transaction" where
  "settled c h now k e s =
     blank\<lparr>tx_id := next_id (transactions s), tx_type := deposit, chatId := c,
           amount := to_column 6 e, txHash := Some h, status := completed,
           completedAt := Some now, confirmations := Some k\<rparr>"

section \<open>Numbers of the language, and the conversion that uses them (models/ExchangeRate.js)\<close>

text \<open>
  \<^verbatim>\<open>ExchangeRate.convertToFiat\<close> leaves the Decimal type: it reads amount and rate with
  \<^verbatim>\<open>parseFloat\<close>, multiplies the two numbers and renders the product with the number's own
  \<^verbatim>\<open>toFixed(2)\<close>. A number of the language is an IEEE 754 double. A finite one is
  \<open>m * 2 ^ x\<close> with a sign; \<open>nearest p q\<close> is the double next to the fraction \<open>p / q\<close>, a tie
  going to the even mantissa of 53 bits. Subnormal numbers, overflow and the sign of
  zero are outside the model, and a product is infinite only when a factor is.
\<close>

datatype number = Finite bool nat int | Infinite bool | NaN

fun normalise :: "nat \<Rightarrow> nat \<Rightarrow> nat \<Rightarrow> int \<Rightarrow> nat \<times> nat \<times> int" where
  "normalise 0 p q x = (p, q, x)"
| "normalise (Suc fuel) p q x =
     (if p < q * 2 ^ 52 then normalise fuel (2 * p) q (x - 1)
      else if q * 2 ^ 53 \<le> p then normalise fuel p (2 * q) (x + 1)
      else (p, q, x))"

definition round_half_even :: "nat \<Rightarrow> nat \<Rightarrow> nat" where
  "round_half_even p q =
     (let n = p div q; r = p mod q
      in if 2 * r < q then n else if q < 2 * r then n + 1 else if even n then n else n + 1)"

definition nearest :: "bool \<Rightarrow> nat \<Rightarrow> nat \<Rightarrow> number" where
  "nearest negative p q =
     (if p = 0 then Finite negative 0 0
      else let (p', q', x) = normalise 2200 p q 0 in Finite negative (round_half_even p' q') x)"

text \<open>
  \<^verbatim>\<open>parseFloat\<close> skips the blanks in front, reads a sign, and then the longest prefix that
  is a decimal literal: \<^verbatim>\<open>Infinity\<close>, or digits with an optional point and an optional
  exponent, of which the digits before or after the point may be missing but not both.
  What follows the prefix is ignored; without such a prefix the result is \<^verbatim>\<open>NaN\<close>. An
  exponent counts only when it has a digit.
\<close>

definition is_digit :: "char \<Rightarrow> bool" where
  "is_digit c = (digit_val c \<noteq> None)"

definition exponent_of :: "string \<Rightarrow> int" where
  "exponent_of r =
     (if take 1 r = ''e'' \<or> take 1 r = ''E'' then
        let r1 = drop 1 r;
            ds = takeWhile is_digit
                   (if take 1 r1 = ''-'' \<or> take 1 r1 = ''+'' then drop 1 r1 else r1)
        in if ds = [] then 0
           else if take 1 r1 = ''-'' then - int (nat_of_digits ds)
           else int (nat_of_digits ds)
      else 0)"

definition parseFloat :: "string \<Rightarrow> number" where
  "parseFloat s =
     (let t = dropWhile is_space s;
          negative = (take 1 t = ''-'');
          u = (if take 1 t = ''-'' \<or> take 1 t = ''+'' then drop 1 t else t);
          ip = takeWhile is_digit u;
          r1 = dropWhile is_digit u;
          fp = (if take 1 r1 = ''.'' then takeWhile is_digit (drop 1 r1) else []);
          r2 = (if take 1 r1 = ''.'' then dropWhile is_digit (drop 1 r1) else r1)
      in if take 8 u = ''Infinity'' then Infinite negative
         else if ip = [] \<and> fp = [] then NaN
         else
           let e = exponent_of r2 - int (length fp)
           in nearest negative (nat_of_digits (ip @ fp) * 10 ^ nat e) (10 ^ nat (- e)))"

fun times_n :: "number \<Rightarrow> number \<Rightarrow> number" where
  "times_n (Finite s m x) (Finite s' m' x') =
     nearest (s \<noteq> s') (m * m' * 2 ^ nat (x + x')) (2 ^ nat (- (x + x')))"
| "times_n (Infinite s) (Finite s' m x) = (if m = 0 then NaN else Infinite (s \<noteq> s'))"
| "times_n (Finite s m x) (Infinite s') = (if m = 0 then NaN else Infinite (s \<noteq> s'))"
| "times_n (Infinite s) (Infinite s') = Infinite (s \<noteq> s')"
| "times_n _ _ = NaN"

text \<open>
  \<^verbatim>\<open>Number.prototype.toFixed(dp)\<close>: the integer \<open>n\<close> for which \<open>n / 10 ^ dp\<close> is closest to the
  number, the larger one of two. Numbers from \<open>10 ^ 21\<close> on render otherwise; they are not
  modelled.
\<close>

fun toFixed_n :: "nat \<Rightarrow> number \<Rightarrow> string" where
  "toFixed_n dp (Finite s m x) =
     (let p = m * 2 ^ nat x; q = 2 ^ nat (- x);
          n = (2 * p * 10 ^ dp + q) div (2 * q)
      in (if s then ''-'' else '''') @ int_digits (n div 10 ^ dp) @
         (if dp = 0 then '''' else CHR ''.'' # frac_digits dp (n mod 10 ^ dp)))"
| "toFixed_n dp (Infinite s) = (if s then ''-Infinity'' else ''Infinity'')"
| "toFixed_n dp NaN = ''NaN''"

definition convertToFiat :: "string \<Rightarrow> fiat_type \<Rightarrow> state \<Rightarrow> string \<times> state" where
  "convertToFiat amt ft s =
     (let (rs, s1) = getCurrentRates s;
          rate = toFixed 6 (Decimal (if ft = USD then rateUSD rs else rateUAH rs) 6)
      in (toFixed_n 2 (times_n (parseFloat amt) (parseFloat rate)), s1))"

section \<open>Example data\<close>

text \<open>
  A configuration with the default fee of 0.4 and five confirmations, the USDT contract
  of the BNB chain, and a chain on which one transfer of \<open>v\<close> token units to the deposit
  address sits six blocks deep and every call of the hot wallet succeeds.
\<close>

definition ex_usdt :: string where
  "ex_usdt = ''0x55d398326f99059fF775485246999027B3197955''"

definition ex_deposit_address :: string where
  "ex_deposit_address = ''0x8894E0a0c962CB723c1976a4421c95949bE2D4E3''"

definition ex_wallet :: string where
  "ex_wallet = ''0x1111111111111111111111111111111111111111''"

definition ex_hash :: string where
  "ex_hash = ''0xa1b2c3d4e5f60718a1b2c3d4e5f60718a1b2c3d4e5f60718a1b2c3d4e5f60718''"

definition ex_hash_out :: string where
  "ex_hash_out = ''0x9f8e7d6c5b4a39289f8e7d6c5b4a39289f8e7d6c5b4a39289f8e7d6c5b4a3928''"

definition ex_cfg :: config where
  "ex_cfg = \<lparr>usdtContractAddress = ex_usdt, depositAddress = ex_deposit_address,
     withdrawalFee = Decimal 4 1, minConfirmations = 5, adminChatId = ''1''\<rparr>"

definition ex_receipt :: "nat \<Rightarrow> receipt" where
  "ex_receipt v = \<lparr>blockNumber = 100,
     logs = [\<lparr>log_parsed = TransferEvent ex_wallet ex_deposit_address v,
              log_address = ex_usdt\<rparr>]\<rparr>"

definition ex_chain :: "nat \<Rightarrow> chain" where
  "ex_chain v = \<lparr>getTransactionReceipt = (\<lambda>h. if h = ex_hash then Inr (Some (ex_receipt v)) else Inr None),
     getBlockNumber = Inr 106, decimals = Inr 18, isAddress = (\<lambda>a. a = ex_wallet),
     parseTokenAmount = (\<lambda>m. Inr (nat m * 10 ^ 12)), getFeeData = Inr (),
     estimateGas = (\<lambda>a n. Inr 50000),
     transfer = (\<lambda>a n g. Inr ex_hash_out), wait = (\<lambda>h. Inr ())\<rparr>"

definition ex_funded :: "int \<Rightarrow> state" where
  "ex_funded a = \<lparr>users = {''42''},
     transactions = [blank\<lparr>tx_id := 1, chatId := ''42'', amount := a, status := completed,
                            txHash := Some ex_hash\<rparr>],
     rates = None, depositRequests = Map.empty, submitted = []\<rparr>"

text \<open>
  The same account after it asked to withdraw 50: the record as \<^verbatim>\<open>createWithdrawal\<close> stores
  it, and as it stands after a processing that failed with the message \<open>e\<close>.
\<close>

definition ex_withdrawal :: transaction where
  "ex_withdrawal = blank\<lparr>tx_id := 2, tx_type := withdrawal, chatId := ''42'',
     amount := 50000000, walletAddress := Some ex_wallet, fee := Some 400000\<rparr>"

definition ex_requested :: state where
  "ex_requested = (ex_funded 50400000)\<lparr>transactions :=
     transactions (ex_funded 50400000) @ [ex_withdrawal]\<rparr>"

definition ex_failed :: "string \<Rightarrow> transaction" where
  "ex_failed e = ex_withdrawal\<lparr>status := failed, adminNotes := Some (''Failed: '' @ e)\<rparr>"

definition ex_refused :: "string \<Rightarrow> state" where
  "ex_refused e = (ex_funded 50400000)\<lparr>transactions :=
     transactions (ex_funded 50400000) @ [ex_failed e]\<rparr>"


text \<open>
  The ledger of an account with one Completed deposit of 123456789012345678.123456, an
  amount of 24 digits, which the column holds.
\<close>

definition ex_large :: "transaction list" where
  "ex_large = [blank\<lparr>tx_id := 1, chatId := ''42'', amount := 123456789012345678123456,
     status := completed\<rparr>]"

text \<open>
  An account that asked for a deposit at time 1000 and was told to send 10.1234.
\<close>

definition ex_intent :: state where
  "ex_intent = snd (deposit_cmd 1000 1234 ''42'' None
     \<lparr>users = {}, transactions = [], rates = None, depositRequests = Map.empty,
      submitted = []\<rparr>)"

text \<open>
  The account that was told to send 10.1234, with a ledger in which two Pending exchange
  requests of 30 stand against one Completed deposit of 50.4.
\<close>

definition ex_overdrawn :: state where
  "ex_overdrawn = ex_intent\<lparr>transactions :=
     [blank\<lparr>tx_id := 1, chatId := ''42'', amount := 50400000, status := completed\<rparr>,
      blank\<lparr>tx_id := 2, tx_type := exchange, chatId := ''42'', amount := 30000000,
            fiatAmount := Some 3000, fiatType := Some USD\<rparr>,
      blank\<lparr>tx_id := 3, tx_type := exchange, chatId := ''42'', amount := 30000000,
            fiatAmount := Some 3000, fiatType := Some USD\<rparr>]\<rparr>"

text \<open>The funded account with a request to exchange 10 USDT for 10.00 USD.\<close>

definition ex_exchange :: transaction where
  "ex_exchange = blank\<lparr>tx_id := 2, tx_type := exchange, chatId := ''42'',
     amount := 10000000, fiatAmount := Some 1000, fiatType := Some USD\<rparr>"

definition ex_exchanging :: state where
  "ex_exchanging = (ex_funded 50400000)\<lparr>transactions :=
     transactions (ex_funded 50400000) @ [ex_exchange]\<rparr>"

text \<open>
  A rejection command of two lines: the key on the first line, a line feed, and two more
  words.
\<close>

definition ex_two_lines :: string where
  "ex_two_lines = ''/reject_exchange 2'' @ [CHR 0x0A] @ ''fraud suspected''"

text \<open>
  The chain on which the transfer to the deposit address carries exactly 10.1234 USDT
  (the token has 18 decimals), and the chain on which it carries 10.1235. On the first,
  the account confirms its deposit at time 2000, asks for a deposit again at time 3000,
  is told the same amount and confirms the same hash at time 4000; then account 43 is
  told that amount too, and confirms the same hash at time 6000.
\<close>

definition ex_paid :: chain where
  "ex_paid = ex_chain 10123400000000000000"

definition ex_overpaid :: chain where
  "ex_overpaid = ex_chain 10123500000000000000"

definition ex_once :: state where
  "ex_once = snd (confirm ex_cfg ex_paid 2000 ''42'' ex_hash ex_intent)"






text \<open>The record of a verified deposit of 10.1234 USDT with that reference.\<close>

definition ex_credit :: "nat \<Rightarrow> string \<Rightarrow> int \<Rightarrow> transaction" where
  "ex_credit i c t = blank\<lparr>tx_id := i, tx_type := deposit, chatId := c, amount := 10123400,
     txHash := Some ex_hash, status := completed, completedAt := Some t,
     confirmations := Some 6\<rparr>"

text \<open>The record of the funded account's request to exchange 1.005 USDT for USD.\<close>

definition ex_converted :: transaction where
  "ex_converted = blank\<lparr>tx_id := 2, tx_type := exchange, chatId := ''42'',
     amount := 1005000, fiatAmount := Some 101, fiatType := Some USD\<rparr>"

section \<open>Results within the working precision are exact\<close>

lemma excess_small: "a < 10 ^ 20 \<Longrightarrow> excess a = 0"
  by (subst excess.simps) simp

lemma excess_large: "\<not> a < 10 ^ 20 \<Longrightarrow> excess a = Suc (excess (a div 10))"
  by (subst excess.simps) simp

lemma finalise_small: "\<bar>c\<bar> < 10 ^ 20 \<Longrightarrow> finalise (Decimal c s) = Decimal c s"
proof -
  assume "\<bar>c\<bar> < 10 ^ 20"
  then have "nat \<bar>c\<bar> < 10 ^ 20" by simp
  then show ?thesis by (simp add: finalise_def excess_small)
qed


section \<open>Rendering and reading decimals\<close>

lemma int_digits_small: "n < 10 \<Longrightarrow> int_digits n = [digit_char n]"
  by (subst int_digits.simps) simp

lemma int_digits_large:
  "\<not> n < 10 \<Longrightarrow> int_digits n = int_digits (n div 10) @ [digit_char (n mod 10)]"
  by (subst int_digits.simps) simp

lemma digit_val_digit_char:
  assumes "n < 10"
  shows "digit_val (digit_char n) = Some n"
proof -
  have "list_all (\<lambda>k. digit_val (digit_char k) = Some k) [0..<10]"
    by code_simp
  moreover have "n \<in> set [0..<10]" using assms by simp
  ultimately show ?thesis by (simp only: list_all_iff)
qed

lemma digit_val_dot: "digit_val (CHR ''.'') = None"
  by (simp add: digit_val_def)

lemma digit_val_minus: "digit_val (CHR ''-'') = None"
  by (simp add: digit_val_def)

lemma digit_val_plus: "digit_val (CHR ''+'') = None"
  by (simp add: digit_val_def)

lemma all_digits_append: "all_digits (xs @ ys) \<longleftrightarrow> all_digits xs \<and> all_digits ys"
  by (simp add: all_digits_def)

lemma all_digits_single: "n < 10 \<Longrightarrow> all_digits [digit_char n]"
  by (simp add: all_digits_def digit_val_digit_char)

lemma all_digits_int_digits: "all_digits (int_digits n)"
proof (induction n rule: int_digits.induct)
  case (1 n)
  show ?case
  proof (cases "n < 10")
    case True
    then show ?thesis by (simp add: int_digits_small all_digits_single)
  next
    case False
    with 1 show ?thesis
      by (simp add: int_digits_large all_digits_append all_digits_single)
  qed
qed

lemma all_digits_frac_digits: "all_digits (frac_digits k n)"
  by (induction k arbitrary: n) (simp_all add: all_digits_def digit_val_digit_char)

lemma length_frac_digits: "length (frac_digits k n) = k"
  by (induction k arbitrary: n) simp_all

lemma int_digits_nonempty: "int_digits n \<noteq> []"
  by (cases "n < 10") (simp_all add: int_digits_small int_digits_large)

lemma nat_of_digits_snoc:
  "d < 10 \<Longrightarrow> nat_of_digits (xs @ [digit_char d]) = 10 * nat_of_digits xs + d"
  by (simp add: nat_of_digits_def digit_val_digit_char)

lemma nat_of_digits_int_digits: "nat_of_digits (int_digits n) = n"
proof (induction n rule: int_digits.induct)
  case (1 n)
  show ?case
  proof (cases "n < 10")
    case True
    then show ?thesis
      using nat_of_digits_snoc [of n "[]"] by (simp add: int_digits_small nat_of_digits_def)
  next
    case False
    with 1 show ?thesis
      by (simp add: int_digits_large nat_of_digits_snoc)
  qed
qed

lemma nat_of_digits_frac_digits:
  "nat_of_digits (xs @ frac_digits k n) = nat_of_digits xs * 10 ^ k + n mod 10 ^ k"
proof (induction k arbitrary: n)
  case 0
  show ?case by simp
next
  case (Suc k)
  have "nat_of_digits (xs @ frac_digits (Suc k) n)
        = nat_of_digits ((xs @ frac_digits k (n div 10)) @ [digit_char (n mod 10)])"
    by simp
  also have "\<dots> = 10 * nat_of_digits (xs @ frac_digits k (n div 10)) + n mod 10"
    by (rule nat_of_digits_snoc) simp
  also have "\<dots> = 10 * (nat_of_digits xs * 10 ^ k + (n div 10) mod 10 ^ k) + n mod 10"
    by (simp add: Suc.IH)
  also have "\<dots> = nat_of_digits xs * 10 ^ Suc k + n mod 10 ^ Suc k"
    by (simp add: mod_mult2_eq algebra_simps)
  finally show ?case .
qed

lemma no_dot_in_digits: "all_digits s \<Longrightarrow> \<forall>c\<in>set s. c \<noteq> CHR ''.''"
  by (auto simp: all_digits_def list_all_iff digit_val_dot)

lemma parse_unsigned_fixed:
  "parse_unsigned (int_digits a @ CHR ''.'' # frac_digits k b)
   = Some (Decimal (int (a * 10 ^ k + b mod 10 ^ k)) k)"
proof -
  have nd: "\<forall>c\<in>set (int_digits a). c \<noteq> CHR ''.''"
    by (rule no_dot_in_digits) (rule all_digits_int_digits)
  have tw: "takeWhile (\<lambda>c. c \<noteq> CHR ''.'') (int_digits a @ CHR ''.'' # frac_digits k b) = int_digits a"
    using nd by (simp add: takeWhile_append2)
  have dw: "dropWhile (\<lambda>c. c \<noteq> CHR ''.'') (int_digits a @ CHR ''.'' # frac_digits k b)
            = CHR ''.'' # frac_digits k b"
    using nd by (simp add: dropWhile_append2)
  show ?thesis
    unfolding parse_unsigned_def tw dw
    by (simp add: all_digits_int_digits all_digits_frac_digits int_digits_nonempty
        length_frac_digits nat_of_digits_frac_digits nat_of_digits_int_digits)
qed

lemma parse_unsigned_int:
  "parse_unsigned (int_digits a) = Some (Decimal (int a) 0)"
proof -
  have nd: "\<forall>c\<in>set (int_digits a). c \<noteq> CHR ''.''"
    by (rule no_dot_in_digits) (rule all_digits_int_digits)
  have tw: "takeWhile (\<lambda>c. c \<noteq> CHR ''.'') (int_digits a) = int_digits a"
    using nd by (simp add: takeWhile_eq_all_conv)
  have dw: "dropWhile (\<lambda>c. c \<noteq> CHR ''.'') (int_digits a) = []"
    using nd by (simp add: dropWhile_eq_Nil_conv)
  show ?thesis
    unfolding parse_unsigned_def tw dw
    by (simp add: all_digits_int_digits int_digits_nonempty nat_of_digits_int_digits)
qed

text \<open>The unsigned part of a rendering, and the value it denotes.\<close>

lemma hd_int_digits:
  "\<exists>c r. int_digits a = c # r \<and> c \<noteq> CHR ''-'' \<and> c \<noteq> CHR ''+''"
proof -
  obtain c r where cr: "int_digits a = c # r"
    using int_digits_nonempty [of a] by (cases "int_digits a") auto
  have "all_digits (c # r)" using all_digits_int_digits [of a] cr by simp
  then have "digit_val c \<noteq> None" by (simp add: all_digits_def)
  then have "c \<noteq> CHR ''-'' \<and> c \<noteq> CHR ''+''"
    using digit_val_minus digit_val_plus by auto
  with cr show ?thesis by blast
qed

lemma new_Decimal_toFixed: "new_Decimal (toFixed dp d) = Some (rounded dp d)"
proof -
  define m where "m = rescale dp d"
  define body where "body = int_digits (m div 10 ^ dp) @
      (if dp = 0 then '''' else CHR ''.'' # frac_digits dp (m mod 10 ^ dp))"
  have pu: "parse_unsigned body = Some (Decimal (int m) dp)"
  proof (cases "dp = 0")
    case True
    then show ?thesis by (simp add: body_def parse_unsigned_int)
  next
    case False
    have "m div 10 ^ dp * 10 ^ dp + m mod 10 ^ dp = m" by (rule div_mult_mod_eq)
    with False show ?thesis
      using parse_unsigned_fixed [of "m div 10 ^ dp" dp "m mod 10 ^ dp"]
      by (simp add: body_def)
  qed
  obtain c r where cr: "int_digits (m div 10 ^ dp) = c # r" "c \<noteq> CHR ''-''" "c \<noteq> CHR ''+''"
    using hd_int_digits by blast
  have body_cons: "body = c # (r @ (if dp = 0 then '''' else CHR ''.'' # frac_digits dp (m mod 10 ^ dp)))"
    by (simp add: body_def cr)
  show ?thesis
  proof (cases "coeff d < 0")
    case True
    then have "toFixed dp d = CHR ''-'' # body"
      by (simp add: toFixed_def body_def m_def Let_def)
    then show ?thesis
      using True pu by (simp add: new_Decimal_def rounded_def negate_d_def m_def)
  next
    case False
    then have tf: "toFixed dp d = body"
      by (simp add: toFixed_def body_def m_def Let_def)
    have "new_Decimal body = parse_unsigned body"
      using cr(2,3) unfolding new_Decimal_def by (subst body_cons) simp
    then show ?thesis
      using False pu tf by (simp add: rounded_def m_def)
  qed
qed

lemma volume_Cons: "volume (x # xs) = \<bar>amount x\<bar> + volume xs"
  by (simp add: volume_def)

lemma volume_nonneg: "0 \<le> volume xs"
  by (induction xs) (simp_all add: volume_def)

lemma volume_filter: "volume (filter P xs) \<le> volume xs"
proof (induction xs)
  case Nil
  show ?case by simp
next
  case (Cons a xs)
  have "0 \<le> \<bar>amount a\<bar>" by simp
  with Cons show ?case by (cases "P a") (simp_all add: volume_Cons)
qed

lemma sum_le_volume: "\<bar>sum_list (map amount xs)\<bar> \<le> volume xs"
  by (induction xs) (simp_all add: volume_def)

lemma plus_amount:
  assumes "scale acc \<le> 6" "\<bar>align acc 6 + amount x\<bar> < 10 ^ 20"
  shows "plus_d acc (amount_d x) = Decimal (align acc 6 + amount x) 6"
proof -
  have "max (scale acc) 6 = 6" using assms(1) by simp
  then have "plus_d acc (amount_d x) = finalise (Decimal (align acc 6 + amount x) 6)"
    by (simp add: plus_d_def amount_d_def align_def)
  then show ?thesis using assms(2) by (simp add: finalise_small)
qed

lemma foldl_plus_amounts:
  "scale acc \<le> 6 \<Longrightarrow> \<bar>align acc 6\<bar> + volume (x # xs) < 10 ^ 20 \<Longrightarrow>
   foldl (\<lambda>sum tx. plus_d sum (amount_d tx)) acc (x # xs)
   = Decimal (align acc 6 + sum_list (map amount (x # xs))) 6"
proof (induction xs arbitrary: acc x)
  case Nil
  have "\<bar>align acc 6 + amount x\<bar> < 10 ^ 20"
    using Nil.prems(2) by (simp add: volume_def)
  with Nil.prems(1) show ?case by (simp add: plus_amount)
next
  case (Cons y ys)
  have v: "0 \<le> volume ys" by (rule volume_nonneg)
  have small: "\<bar>align acc 6 + amount x\<bar> < 10 ^ 20"
    using Cons.prems(2) v by (simp add: volume_Cons)
  have step: "plus_d acc (amount_d x) = Decimal (align acc 6 + amount x) 6"
    using Cons.prems(1) small by (rule plus_amount)
  have al: "align (Decimal (align acc 6 + amount x) 6) 6 = align acc 6 + amount x"
    by (simp add: align_def)
  have "foldl (\<lambda>sum tx. plus_d sum (amount_d tx)) acc (x # y # ys)
        = foldl (\<lambda>sum tx. plus_d sum (amount_d tx)) (Decimal (align acc 6 + amount x) 6) (y # ys)"
    by (simp add: step)
  also have "\<dots> = Decimal (align (Decimal (align acc 6 + amount x) 6) 6
                          + sum_list (map amount (y # ys))) 6"
  proof (rule Cons.IH)
    show "scale (Decimal (align acc 6 + amount x) 6) \<le> 6" by simp
    show "\<bar>align (Decimal (align acc 6 + amount x) 6) 6\<bar> + volume (y # ys) < 10 ^ 20"
      using Cons.prems(2) unfolding al by (simp add: volume_Cons)
  qed
  finally show ?case by (simp add: al)
qed

lemma total_cases:
  assumes "volume xs < 10 ^ 20"
  shows "foldl (\<lambda>sum tx. plus_d sum (amount_d tx)) (Decimal 0 0) xs
         = (if xs = [] then Decimal 0 0 else Decimal (sum_list (map amount xs)) 6)"
proof (cases xs)
  case Nil
  then show ?thesis by simp
next
  case (Cons a list)
  have "scale (Decimal 0 0) \<le> 6" by simp
  moreover have "\<bar>align (Decimal 0 0) 6\<bar> + volume (a # list) < 10 ^ 20"
    using assms Cons by (simp add: align_def)
  ultimately show ?thesis
    using foldl_plus_amounts [of "Decimal 0 0" a list] Cons by (simp add: align_def)
qed

lemma total_scale:
  "volume xs < 10 ^ 20 \<Longrightarrow>
   scale (foldl (\<lambda>sum tx. plus_d sum (amount_d tx)) (Decimal 0 0) xs) \<le> 6"
  by (simp add: total_cases)

lemma total_align:
  "volume xs < 10 ^ 20 \<Longrightarrow>
   align (foldl (\<lambda>sum tx. plus_d sum (amount_d tx)) (Decimal 0 0) xs) 6
   = sum_list (map amount xs)"
  by (simp add: total_cases align_def)

lemma align_trans: "scale d \<le> k \<Longrightarrow> k \<le> n \<Longrightarrow> align d k * 10 ^ (n - k) = align d n"
  by (simp add: align_def power_add [symmetric])

lemma abs_le_scaled: "\<bar>a\<bar> \<le> \<bar>a * 10 ^ m\<bar>" for a :: int
proof -
  have "\<bar>a\<bar> * 1 \<le> \<bar>a\<bar> * 10 ^ m" by (rule mult_left_mono) simp_all
  then show ?thesis by (simp add: abs_mult)
qed

lemma minus_d_exact:
  assumes "scale x \<le> n" "scale y \<le> n" "\<bar>align x n - align y n\<bar> < 10 ^ 20"
  shows "minus_d x y = Decimal (align x (max (scale x) (scale y)) - align y (max (scale x) (scale y)))
                         (max (scale x) (scale y))"
proof -
  define k where "k = max (scale x) (scale y)"
  have k: "scale x \<le> k" "scale y \<le> k" "k \<le> n" using assms by (simp_all add: k_def)
  have "(align x k - align y k) * 10 ^ (n - k) = align x k * 10 ^ (n - k) - align y k * 10 ^ (n - k)"
    by (simp add: algebra_simps)
  also have "\<dots> = align x n - align y n"
    using k by (simp add: align_trans)
  finally have "\<bar>align x k - align y k\<bar> \<le> \<bar>align x n - align y n\<bar>"
    using abs_le_scaled [of "align x k - align y k" "n - k"] by simp
  then have "\<bar>align x k - align y k\<bar> < 10 ^ 20" using assms(3) by simp
  then show ?thesis
    by (simp add: minus_d_def Let_def k_def [symmetric] finalise_small)
qed

lemma minus_d_scale:
  "scale x \<le> n \<Longrightarrow> scale y \<le> n \<Longrightarrow> \<bar>align x n - align y n\<bar> < 10 ^ 20 \<Longrightarrow>
   scale (minus_d x y) \<le> n"
  by (simp add: minus_d_exact)

lemma minus_d_align:
  assumes "scale x \<le> n" "scale y \<le> n" "\<bar>align x n - align y n\<bar> < 10 ^ 20"
  shows "align (minus_d x y) n = align x n - align y n"
proof -
  define k where "k = max (scale x) (scale y)"
  have k: "scale x \<le> k" "scale y \<le> k" "k \<le> n" using assms by (simp_all add: k_def)
  have "align (minus_d x y) n = (align x k - align y k) * 10 ^ (n - k)"
    using assms by (simp add: minus_d_exact k_def [symmetric] align_def)
  also have "\<dots> = align x k * 10 ^ (n - k) - align y k * 10 ^ (n - k)"
    by (simp add: algebra_simps)
  also have "\<dots> = align x n - align y n"
    using k by (simp add: align_trans)
  finally show ?thesis .
qed

lemma sum_amounts_Cons:
  "sum_amounts k S (t # txs) c
   = (if chatId t = c \<and> tx_type t = k \<and> status t \<in> S then amount t else 0)
     + sum_amounts k S txs c"
  by (simp add: sum_amounts_def)

lemma sums_le_volume:
  "\<bar>sum_amounts deposit A txs c\<bar> + \<bar>sum_amounts withdrawal B txs c\<bar>
   + \<bar>sum_amounts exchange C txs c\<bar> \<le> volume txs"
proof (induction txs)
  case Nil
  show ?case by (simp add: sum_amounts_def volume_def)
next
  case (Cons t txs)
  define d where "d = (if chatId t = c \<and> tx_type t = deposit \<and> status t \<in> A then amount t else 0)"
  define w where "w = (if chatId t = c \<and> tx_type t = withdrawal \<and> status t \<in> B then amount t else 0)"
  define e where "e = (if chatId t = c \<and> tx_type t = exchange \<and> status t \<in> C then amount t else 0)"
  have head: "\<bar>d\<bar> + \<bar>w\<bar> + \<bar>e\<bar> \<le> \<bar>amount t\<bar>"
    by (cases "tx_type t") (simp_all add: d_def w_def e_def)
  have "\<bar>d + sum_amounts deposit A txs c\<bar> \<le> \<bar>d\<bar> + \<bar>sum_amounts deposit A txs c\<bar>"
    by (rule abs_triangle_ineq)
  moreover have "\<bar>w + sum_amounts withdrawal B txs c\<bar> \<le> \<bar>w\<bar> + \<bar>sum_amounts withdrawal B txs c\<bar>"
    by (rule abs_triangle_ineq)
  moreover have "\<bar>e + sum_amounts exchange C txs c\<bar> \<le> \<bar>e\<bar> + \<bar>sum_amounts exchange C txs c\<bar>"
    by (rule abs_triangle_ineq)
  ultimately have
    "\<bar>d + sum_amounts deposit A txs c\<bar> + \<bar>w + sum_amounts withdrawal B txs c\<bar>
     + \<bar>e + sum_amounts exchange C txs c\<bar> \<le> \<bar>amount t\<bar> + volume txs"
    using head Cons.IH by linarith
  then show ?case
    by (simp only: sum_amounts_Cons volume_Cons d_def w_def e_def)
qed

lemma align_neg_iff: "align d n < 0 \<longleftrightarrow> coeff d < 0"
  by (simp add: align_def mult_less_0_iff)

lemma lessThan_zero: "lessThan_d d (Decimal 0 0) \<longleftrightarrow> coeff d < 0"
  by (simp add: lessThan_d_def align_def mult_less_0_iff)

lemma toFixed_align:
  assumes "scale d \<le> dp"
  shows "toFixed dp d = toFixed dp (Decimal (align d dp) dp)"
proof -
  have r: "rescale dp d = rescale dp (Decimal (align d dp) dp)"
    using assms by (simp add: rescale_def align_def abs_mult nat_mult_distrib nat_power_eq)
  have s: "coeff (Decimal (align d dp) dp) < 0 \<longleftrightarrow> coeff d < 0"
    by (simp add: align_neg_iff)
  show ?thesis unfolding toFixed_def r s ..
qed

lemma frac_digits_numeral:
  "frac_digits (numeral k) n = frac_digits (pred_numeral k) (n div 10) @ [digit_char (n mod 10)]"
proof -
  have "numeral k = Suc (pred_numeral k)" by (rule numeral_eq_Suc)
  then show ?thesis by (simp only: frac_digits.simps)
qed

lemma zero_rendering: "toFixed 6 (Decimal 0 6) = ''0.000000''"
  by (simp add: toFixed_def rescale_def int_digits_small frac_digits_numeral digit_char_def)

lemma rounded_same_scale: "0 \<le> n \<Longrightarrow> rounded dp (Decimal n dp) = Decimal n dp"
  by (simp add: rounded_def rescale_def)

lemma getUserBalance_raw:
  assumes vol: "volume txs < 10 ^ 20"
  shows "getUserBalance txs c = toFixed 6 (Decimal (max 0 (raw_balance txs c)) 6)"
proof -
  define ds where "ds = filter (\<lambda>tx. chatId tx = c \<and> tx_type tx = deposit
                                  \<and> status tx = completed) txs"
  define ws where "ws = filter (\<lambda>tx. chatId tx = c \<and> tx_type tx = withdrawal
                                  \<and> status tx \<in> {completed, pending, processing}) txs"
  define es where "es = filter (\<lambda>tx. chatId tx = c \<and> tx_type tx = exchange
                                  \<and> status tx \<in> {completed, pending, processing}) txs"
  define total where "total = foldl (\<lambda>sum tx. plus_d sum (amount_d tx)) (Decimal 0 0)"
  define balance where "balance = minus_d (minus_d (total ds) (total ws)) (total es)"
  define D where "D = sum_amounts deposit {completed} txs c"
  define W where "W = sum_amounts withdrawal {completed, processing, pending} txs c"
  define E where "E = sum_amounts exchange {completed, processing, pending} txs c"
  have "\<bar>D\<bar> + \<bar>W\<bar> + \<bar>E\<bar> \<le> volume txs"
    unfolding D_def W_def E_def by (rule sums_le_volume)
  then have small: "\<bar>D - W\<bar> < 10 ^ 20" "\<bar>D - W - E\<bar> < 10 ^ 20"
    using vol by linarith+
  have fv: "volume (filter P txs) < 10 ^ 20" for P
    using volume_filter [of P txs] vol by linarith
  have vd: "volume ds < 10 ^ 20" unfolding ds_def by (rule fv)
  have vw: "volume ws < 10 ^ 20" unfolding ws_def by (rule fv)
  have ve: "volume es < 10 ^ 20" unfolding es_def by (rule fv)
  have sc: "scale (total ds) \<le> 6" "scale (total ws) \<le> 6" "scale (total es) \<le> 6"
    unfolding total_def by (rule total_scale [OF vd] total_scale [OF vw] total_scale [OF ve])+
  have "align (total ds) 6 = sum_list (map amount ds)"
    unfolding total_def by (rule total_align [OF vd])
  also have "\<dots> = D"
    by (simp add: ds_def D_def sum_amounts_def sum_list_map_filter')
  finally have ad: "align (total ds) 6 = D" .
  have "align (total ws) 6 = sum_list (map amount ws)"
    unfolding total_def by (rule total_align [OF vw])
  also have "\<dots> = W"
    unfolding ws_def W_def sum_amounts_def sum_list_map_filter'
    by (intro arg_cong [where f = sum_list] map_cong refl) auto
  finally have aw: "align (total ws) 6 = W" .
  have "align (total es) 6 = sum_list (map amount es)"
    unfolding total_def by (rule total_align [OF ve])
  also have "\<dots> = E"
    unfolding es_def E_def sum_amounts_def sum_list_map_filter'
    by (intro arg_cong [where f = sum_list] map_cong refl) auto
  finally have ae: "align (total es) 6 = E" .
  have s1: "\<bar>align (total ds) 6 - align (total ws) 6\<bar> < 10 ^ 20"
    using small(1) by (simp add: ad aw)
  have msc: "scale (minus_d (total ds) (total ws)) \<le> 6"
    using sc(1) sc(2) s1 by (rule minus_d_scale)
  have mal: "align (minus_d (total ds) (total ws)) 6 = D - W"
    using minus_d_align [OF sc(1) sc(2) s1] by (simp add: ad aw)
  have s2: "\<bar>align (minus_d (total ds) (total ws)) 6 - align (total es) 6\<bar> < 10 ^ 20"
    using small(2) by (simp add: mal ae)
  have bsc: "scale balance \<le> 6"
    unfolding balance_def using msc sc(3) s2 by (rule minus_d_scale)
  have "align balance 6 = D - W - E"
    unfolding balance_def using minus_d_align [OF msc sc(3) s2] by (simp add: mal ae)
  then have raw: "align balance 6 = raw_balance txs c"
    by (simp add: raw_balance_def D_def W_def E_def)
  have gub: "getUserBalance txs c
             = (if lessThan_d balance (Decimal 0 0) then ''0.000000'' else toFixed 6 balance)"
    by (simp add: getUserBalance_def Let_def ds_def ws_def es_def total_def balance_def)
  show ?thesis
  proof (cases "raw_balance txs c < 0")
    case True
    then have "lessThan_d balance (Decimal 0 0)"
      using raw align_neg_iff [of balance 6] by (simp add: lessThan_zero)
    with True show ?thesis by (simp add: gub zero_rendering max_def)
  next
    case False
    then have "\<not> lessThan_d balance (Decimal 0 0)"
      using raw align_neg_iff [of balance 6] by (simp add: lessThan_zero)
    with False show ?thesis
      using toFixed_align [OF bsc] raw by (simp add: gub max_def)
  qed
qed

lemma account_volume_le: "account_volume txs c \<le> volume txs"
  unfolding account_volume_def by (rule volume_filter)

lemma getUserBalance_account:
  "getUserBalance (filter (\<lambda>tx. chatId tx = c) txs) c = getUserBalance txs c"
proof -
  have "filter (\<lambda>tx. chatId tx = c \<and> P tx) (filter (\<lambda>tx. chatId tx = c) txs)
        = filter (\<lambda>tx. chatId tx = c \<and> P tx) txs" for P
    by (induction txs) auto
  then show ?thesis by (simp only: getUserBalance_def)
qed

lemma sum_amounts_account:
  "sum_amounts k S (filter (\<lambda>tx. chatId tx = c) txs) c = sum_amounts k S txs c"
  by (induction txs) (simp_all add: sum_amounts_def)

lemma raw_balance_account:
  "raw_balance (filter (\<lambda>tx. chatId tx = c) txs) c = raw_balance txs c"
  by (simp add: raw_balance_def sum_amounts_account)

lemma getUserBalance_raw_account:
  assumes "account_volume txs c < 10 ^ 20"
  shows "getUserBalance txs c = toFixed 6 (Decimal (max 0 (raw_balance txs c)) 6)"
proof -
  have "volume (filter (\<lambda>tx. chatId tx = c) txs) < 10 ^ 20"
    using assms by (simp only: account_volume_def)
  from getUserBalance_raw [OF this, of c] show ?thesis
    by (simp only: getUserBalance_account raw_balance_account)
qed

lemma ex_large_excess: "excess 123456789012345678123456 = 4"
  by (simp add: excess_small excess_large)

lemma ex_large_sum:
  "plus_d (Decimal 0 0) (Decimal 123456789012345678123456 6) = Decimal 12345678901234567812 2"
  by (simp add: plus_d_def align_def finalise_def ex_large_excess)

lemma ex_large_difference:
  "minus_d (Decimal 12345678901234567812 2) (Decimal 0 0) = Decimal 12345678901234567812 2"
  by (simp add: minus_d_def align_def finalise_small)

lemma ex_large_balance_text:
  "toFixed 6 (Decimal 12345678901234567812 2) = ''123456789012345678.120000''"
  by (simp add: toFixed_def rescale_def int_digits_small int_digits_large
      frac_digits_numeral digit_char_def)

lemma ex_large_sum_text:
  "toFixed 6 (Decimal 123456789012345678123456 6) = ''123456789012345678.123456''"
  by (simp add: toFixed_def rescale_def int_digits_small int_digits_large
      frac_digits_numeral digit_char_def)

text \<open>
  C1, as the specification states it, fails for large sums. An account whose only record
  is a Completed deposit of 123456789012345678.123456 has that amount as the sum of the
  rule, but the first \<^verbatim>\<open>plus\<close> of \<open>getUserBalance\<close> rounds it to 20 significant digits: the
  computed balance is 123456789012345678.120000.
\<close>

theorem getUserBalance_large_counterexample:
  "account_volume ex_large ''42'' = 123456789012345678123456 \<and>
   raw_balance ex_large ''42'' = 123456789012345678123456 \<and>
   toFixed 6 (Decimal (max 0 (raw_balance ex_large ''42'')) 6) = ''123456789012345678.123456'' \<and>
   getUserBalance ex_large ''42'' = ''123456789012345678.120000'' \<and>
   getUserBalance ex_large ''42'' \<noteq> toFixed 6 (Decimal (max 0 (raw_balance ex_large ''42'')) 6)"
proof -
  have raw: "raw_balance ex_large ''42'' = 123456789012345678123456"
    by (simp add: raw_balance_def sum_amounts_def ex_large_def blank_def)
  have rule: "toFixed 6 (Decimal (max 0 (raw_balance ex_large ''42'')) 6)
              = ''123456789012345678.123456''"
    by (simp add: raw ex_large_sum_text)
  have "\<not> lessThan_d (Decimal 12345678901234567812 2) (Decimal 0 0)"
    by (simp add: lessThan_d_def align_def)
  then have code: "getUserBalance ex_large ''42'' = ''123456789012345678.120000''"
    by (simp add: getUserBalance_def ex_large_def blank_def amount_d_def ex_large_sum
        ex_large_difference ex_large_balance_text)
  have vol: "account_volume ex_large ''42'' = 123456789012345678123456"
    by (simp add: account_volume_def volume_def ex_large_def blank_def)
  show ?thesis
    unfolding rule code using raw vol by simp
qed

text \<open>
  C1, amended. While the volume of the account is below \<open>10 ^ 20\<close> millionths, the balance
  that \<open>getUserBalance\<close> computes for it is the sum of the amounts of its
  Completed deposits, minus the sum of the amounts of its withdrawals that are
  Completed, Processing or Pending, minus the sum of the amounts of its exchanges that are
  Completed, Processing or Pending, and zero when that difference is negative. The
  function returns the balance as text with six fractional digits; read back as a
  Decimal it is exactly that number of millionths. Beyond that volume the sums are
  rounded to 20 significant digits.
\<close>

theorem getUserBalance_clamped_sum:
  assumes "account_volume txs c < 10 ^ 20"
  shows "getUserBalance txs c = toFixed 6 (Decimal (max 0 (raw_balance txs c)) 6) \<and>
         new_Decimal (getUserBalance txs c) = Some (Decimal (max 0 (raw_balance txs c)) 6)"
proof
  show rendering: "getUserBalance txs c = toFixed 6 (Decimal (max 0 (raw_balance txs c)) 6)"
    using assms by (rule getUserBalance_raw_account)
  have "rounded 6 (Decimal (max 0 (raw_balance txs c)) 6) = Decimal (max 0 (raw_balance txs c)) 6"
    by (rule rounded_same_scale) simp
  then show "new_Decimal (getUserBalance txs c) = Some (Decimal (max 0 (raw_balance txs c)) 6)"
    unfolding rendering by (simp add: new_Decimal_toFixed)
qed

lemmas dec_eval = toFixed_def rescale_def int_digits_small int_digits_large digit_char_def
  new_Decimal_def parse_unsigned_def all_digits_def nat_of_digits_def digit_val_def
  frac_digits_numeral

lemma ex_usdt_lower: "toLowerCase ex_usdt = ''0x55d398326f99059ff775485246999027b3197955''"
  by (simp add: toLowerCase_def lower_char_def ex_usdt_def)

section \<open>The store\<close>

lemma findByPk_id: "findByPk i s = Some tx \<Longrightarrow> tx_id tx = i"
  by (auto simp: findByPk_def find_Some_iff)

lemma find_map_replace:
  "find (\<lambda>r. tx_id r = i) xs = Some tx \<Longrightarrow> tx_id t = i \<Longrightarrow>
   find (\<lambda>r. tx_id r = i) (map (\<lambda>r. if tx_id r = tx_id t then t else r) xs) = Some t"
  by (induction xs) (auto split: if_splits)

lemma find_map_other:
  "j \<noteq> tx_id t \<Longrightarrow>
   find (\<lambda>r. tx_id r = j) (map (\<lambda>r. if tx_id r = tx_id t then t else r) xs)
   = find (\<lambda>r. tx_id r = j) xs"
  by (induction xs) auto

lemma findByPk_save_same:
  "findByPk i s = Some tx \<Longrightarrow> tx_id t = i \<Longrightarrow> findByPk i (save t s) = Some t"
  using find_map_replace [of i "transactions s" tx t] by (simp add: findByPk_def save_def)

lemma findByPk_save_other:
  "j \<noteq> tx_id t \<Longrightarrow> findByPk j (save t s) = findByPk j s"
  by (simp add: findByPk_def save_def find_map_other)

lemma findByPk_submitted [simp]:
  "findByPk i (s\<lparr>submitted := x\<rparr>) = findByPk i s"
  by (simp add: findByPk_def)

lemma submitted_save [simp]: "submitted (save t s) = submitted s"
  by (simp add: save_def)

section \<open>Exchange decisions\<close>

lemma findByPk_text_key:
  "pk_of_text key = Some (int i) \<Longrightarrow> findByPk_text key s = Inr (findByPk i s)"
  by (simp add: findByPk_text_def)

lemma findByPk_text_cases:
  "findByPk_text key s = Inl () \<and> pk_of_text key = None
   \<or> findByPk_text key s = Inr None
      \<and> (\<forall>i. pk_of_text key = Some (int i) \<longrightarrow> findByPk i s = None)
   \<or> (\<exists>i tx. pk_of_text key = Some (int i) \<and> findByPk i s = Some tx
        \<and> findByPk_text key s = Inr (Some tx))"
proof (cases "pk_of_text key")
  case None
  then show ?thesis by (simp add: findByPk_text_def)
next
  case (Some j)
  show ?thesis
  proof (cases "j < 0")
    case True
    with Some show ?thesis by (simp add: findByPk_text_def)
  next
    case False
    then have j: "j = int (nat j)" by simp
    show ?thesis
    proof (cases "findByPk (nat j) s")
      case None
      with Some False show ?thesis by (auto simp: findByPk_text_def)
    next
      case (Some tx)
      have "pk_of_text key = Some (int (nat j))"
        using \<open>pk_of_text key = Some j\<close> j by simp
      moreover have "findByPk_text key s = Inr (Some tx)"
        using \<open>pk_of_text key = Some j\<close> False Some by (simp add: findByPk_text_def)
      ultimately show ?thesis using Some by blast
    qed
  qed
qed

text \<open>A key followed by a reason is not the text of an integer.\<close>

lemma trim_blanks_words:
  assumes "\<exists>x\<in>set a. \<not> is_space x" "\<exists>y\<in>set b. \<not> is_space y"
  shows "\<exists>a' b'. a' \<noteq> [] \<and> trim_blanks (a @ CHR '' '' # b) = a' @ CHR '' '' # b'"
proof -
  define a' where "a' = dropWhile is_space a"
  define b' where "b' = dropWhile is_space (rev b)"
  have a'_ne: "a' \<noteq> []"
    using assms(1) by (simp add: a'_def dropWhile_eq_Nil_conv)
  obtain x where x: "x \<in> set a" "\<not> is_space x" using assms(1) by blast
  obtain y where y: "y \<in> set (rev b)" "\<not> is_space y" using assms(2) by auto
  have "dropWhile is_space (a @ CHR '' '' # b) = a' @ CHR '' '' # b"
    unfolding a'_def using x by (rule dropWhile_append1)
  then have "rev (dropWhile is_space (a @ CHR '' '' # b)) = rev b @ (CHR '' '' # rev a')"
    by simp
  moreover have "dropWhile is_space (rev b @ (CHR '' '' # rev a')) = b' @ (CHR '' '' # rev a')"
    unfolding b'_def using y by (rule dropWhile_append1)
  ultimately have "trim_blanks (a @ CHR '' '' # b) = a' @ CHR '' '' # rev b'"
    by (simp add: trim_blanks_def)
  with a'_ne show ?thesis by blast
qed

lemma pk_of_text_words:
  assumes "\<exists>x\<in>set a. \<not> is_space x" "\<exists>y\<in>set b. \<not> is_space y"
  shows "pk_of_text (a @ CHR '' '' # b) = None"
proof -
  obtain a' b' where t: "a' \<noteq> []" "trim_blanks (a @ CHR '' '' # b) = a' @ CHR '' '' # b'"
    using trim_blanks_words [OF assms] by blast
  obtain x r where a': "a' = x # r" using t(1) by (cases a') auto
  have sp: "digit_val (CHR '' '') = None" by (simp add: digit_val_def)
  have "\<not> all_digits (a' @ CHR '' '' # b')"
    by (simp add: all_digits_def sp)
  moreover have "\<not> all_digits (drop 1 (a' @ CHR '' '' # b'))"
    by (simp add: a' all_digits_def sp)
  ultimately show ?thesis
    by (simp add: pk_of_text_def t(2) Let_def)
qed

lemma split_on_word: "c \<notin> set w \<Longrightarrow> split_on c w = [w]"
  by (induction w) auto

lemma split_on_first: "c \<notin> set w \<Longrightarrow> split_on c (w @ c # r) = w # split_on c r"
  by (induction w) auto

lemma command_words:
  assumes "CHR '' '' \<notin> set rest"
  shows "split_on CHR '' '' (''/reject_exchange '' @ rest) = [''/reject_exchange'', rest]"
proof -
  have "CHR '' '' \<notin> set ''/reject_exchange''" by simp
  then have "split_on CHR '' '' (''/reject_exchange'' @ CHR '' '' # rest)
             = ''/reject_exchange'' # split_on CHR '' '' rest"
    by (rule split_on_first)
  then show ?thesis
    using assms by (simp add: split_on_word)
qed

lemma rejection_reason_default:
  assumes "CHR '' '' \<notin> set rest"
  shows "rejection_reason (''/reject_exchange '' @ rest) = default_rejection"
proof -
  have "split_on CHR '' '' (''/reject_exchange '' @ rest) = [''/reject_exchange'', rest]"
    using assms by (rule command_words)
  then have "length (split_on CHR '' '' (''/reject_exchange '' @ rest)) = 2"
    by (simp only: list.size)
  then show ?thesis
    unfolding rejection_reason_def Let_def by (simp only:) simp
qed

lemma match_command_start:
  assumes "cmd \<noteq> []" "rest \<noteq> []" "\<forall>x\<in>set rest. \<not> is_line_break x"
  shows "match_command cmd (cmd @ rest) = Some rest"
proof -
  obtain x xs where t: "cmd @ rest = x # xs"
    using assms(1) by (cases "cmd @ rest") auto
  have tw: "takeWhile (\<lambda>c. \<not> is_line_break c) rest = rest"
    using assms(3) by (simp add: takeWhile_eq_all_conv)
  have "match_command cmd (x # xs)
        = (let m = takeWhile (\<lambda>c. \<not> is_line_break c) (drop (length cmd) (x # xs))
           in if take (length cmd) (x # xs) = cmd \<and> m \<noteq> [] then Some m
              else match_command cmd xs)"
    by (rule match_command.simps)
  also have "\<dots> = Some rest"
    unfolding t [symmetric] using assms(2) by (simp add: tw)
  finally show ?thesis unfolding t .
qed

lemma reject_exchange_start:
  assumes "rest \<noteq> []" "\<forall>x\<in>set rest. \<not> is_line_break x"
  shows "match_command ''/reject_exchange '' (''/reject_exchange '' @ rest) = Some rest"
  using assms by (intro match_command_start) simp_all

text \<open>
  C10. Completing and rejecting an exchange change a record only when the text after
  the command is the key of a record that exists, is an exchange and is Pending. Then
  completion writes the status Completed and the completion time in one update (and the
  notes, when some are given), and rejection by the administrator writes the status
  Failed and the rejection reason into the admin notes; the stored record is the
  updated one. In every other case both operations answer with an error and leave the
  whole store as it was; so does a rejection asked by anyone but the administrator, and
  a message that the expression of the command does not match never reaches the
  handler. A rejection that has been written is reported to the administrator as such
  when the owner of the record has a row in the users table; without that row the reply
  is the error text, after the write.

  For a message of one line that starts with the command, the text after the command is
  the key. The rejection reason is then the default text when that text has no space,
  and a text made of a key and a reason is not a key: the lookup throws, completion and
  rejection answer with an error and change nothing.
\<close>

theorem exchange_decision_guarded:
  "(\<forall>i tx. pk_of_text key = Some (int i) \<and> findByPk i s = Some tx
            \<and> tx_type tx = exchange \<and> status tx = pending \<longrightarrow>
      (let done = tx\<lparr>status := completed, completedAt := Some now,
                       adminNotes := (if memo = [] then adminNotes tx else Some memo)\<rparr>;
           rejected = tx\<lparr>status := failed, adminNotes := Some (rejection_reason msg_text)\<rparr>
       in completeExchangeTransaction now key memo s = (Inr done, save done s)
          \<and> findByPk i (save done s) = Some done
          \<and> (isAdmin cfg c \<and> match_command ''/reject_exchange '' msg_text = Some key \<longrightarrow>
               reject_exchange cfg c msg_text s
               = (if chatId tx \<in> users s then ExchangeRejected rejected (rejection_reason msg_text)
                  else RejectError, save rejected s)
               \<and> findByPk i (save rejected s) = Some rejected)))
   \<and> ((\<nexists>i tx. pk_of_text key = Some (int i) \<and> findByPk i s = Some tx
                \<and> tx_type tx = exchange \<and> status tx = pending) \<longrightarrow>
        (\<exists>e. completeExchangeTransaction now key memo s = (Inl e, s))
        \<and> (match_command ''/reject_exchange '' msg_text = Some key \<longrightarrow>
             (\<exists>r. reject_exchange cfg c msg_text s = (r, s) \<and> (\<forall>t m. r \<noteq> ExchangeRejected t m))))
   \<and> (match_command ''/reject_exchange '' msg_text = None \<longrightarrow>
        reject_exchange cfg c msg_text s = (Unanswered, s))
   \<and> (\<not> isAdmin cfg c \<longrightarrow>
        (\<exists>r. reject_exchange cfg c msg_text s = (r, s) \<and> (\<forall>t m. r \<noteq> ExchangeRejected t m)))
   \<and> (msg_text = ''/reject_exchange '' @ key \<and> key \<noteq> [] \<and> (\<forall>x\<in>set key. \<not> is_line_break x) \<longrightarrow>
        match_command ''/reject_exchange '' msg_text = Some key
        \<and> (CHR '' '' \<notin> set key \<longrightarrow> rejection_reason msg_text = default_rejection))
   \<and> (\<forall>a b. key = a @ CHR '' '' # b \<and> (\<exists>x\<in>set a. \<not> is_space x) \<and> (\<exists>y\<in>set b. \<not> is_space y) \<longrightarrow>
        completeExchangeTransaction now key memo s = (Inl LookupThrew, s)
        \<and> (isAdmin cfg c \<and> match_command ''/reject_exchange '' msg_text = Some key \<longrightarrow>
             reject_exchange cfg c msg_text s = (RejectError, s)))"
proof (intro conjI allI impI)
  fix i tx
  assume a: "pk_of_text key = Some (int i) \<and> findByPk i s = Some tx
             \<and> tx_type tx = exchange \<and> status tx = pending"
  then have idt: "tx_id tx = i" by (auto dest: findByPk_id)
  have look: "findByPk_text key s = Inr (Some tx)"
    using a by (simp add: findByPk_text_key)
  have users: "users (save t s) = users s" for t by (simp add: save_def)
  show "let done = tx\<lparr>status := completed, completedAt := Some now,
                       adminNotes := (if memo = [] then adminNotes tx else Some memo)\<rparr>;
           rejected = tx\<lparr>status := failed, adminNotes := Some (rejection_reason msg_text)\<rparr>
       in completeExchangeTransaction now key memo s = (Inr done, save done s)
          \<and> findByPk i (save done s) = Some done
          \<and> (isAdmin cfg c \<and> match_command ''/reject_exchange '' msg_text = Some key \<longrightarrow>
               reject_exchange cfg c msg_text s
               = (if chatId tx \<in> users s then ExchangeRejected rejected (rejection_reason msg_text)
                  else RejectError, save rejected s)
               \<and> findByPk i (save rejected s) = Some rejected)"
    using a idt
    by (simp add: Let_def completeExchangeTransaction_def reject_exchange_def look users
        findByPk_save_same)
next
  assume n: "\<nexists>i tx. pk_of_text key = Some (int i) \<and> findByPk i s = Some tx
                \<and> tx_type tx = exchange \<and> status tx = pending"
  from findByPk_text_cases [of key s] n
  show "\<exists>e. completeExchangeTransaction now key memo s = (Inl e, s)"
    by (auto simp: completeExchangeTransaction_def)
  assume m: "match_command ''/reject_exchange '' msg_text = Some key"
  from findByPk_text_cases [of key s] n
  show "\<exists>r. reject_exchange cfg c msg_text s = (r, s) \<and> (\<forall>t m. r \<noteq> ExchangeRejected t m)"
    by (auto simp: reject_exchange_def m Let_def)
next
  assume "match_command ''/reject_exchange '' msg_text = None"
  then show "reject_exchange cfg c msg_text s = (Unanswered, s)"
    by (simp add: reject_exchange_def)
next
  assume "\<not> isAdmin cfg c"
  then show "\<exists>r. reject_exchange cfg c msg_text s = (r, s) \<and> (\<forall>t m. r \<noteq> ExchangeRejected t m)"
    by (simp add: reject_exchange_def split: option.splits)
next
  assume h: "msg_text = ''/reject_exchange '' @ key \<and> key \<noteq> [] \<and> (\<forall>x\<in>set key. \<not> is_line_break x)"
  then have mt: "msg_text = ''/reject_exchange '' @ key"
    and ne: "key \<noteq> []" and nb: "\<forall>x\<in>set key. \<not> is_line_break x"
    by blast+
  show "match_command ''/reject_exchange '' msg_text = Some key"
    unfolding mt using ne nb by (rule reject_exchange_start)
next
  assume h: "msg_text = ''/reject_exchange '' @ key \<and> key \<noteq> [] \<and> (\<forall>x\<in>set key. \<not> is_line_break x)"
    and nsp: "CHR '' '' \<notin> set key"
  from h have mt: "msg_text = ''/reject_exchange '' @ key" by blast
  show "rejection_reason msg_text = default_rejection"
    unfolding mt using nsp by (rule rejection_reason_default)
next
  fix a b
  assume w: "key = a @ CHR '' '' # b \<and> (\<exists>x\<in>set a. \<not> is_space x) \<and> (\<exists>y\<in>set b. \<not> is_space y)"
  then have "pk_of_text key = None" by (simp add: pk_of_text_words)
  then have look: "findByPk_text key s = Inl ()" by (simp add: findByPk_text_def)
  show "completeExchangeTransaction now key memo s = (Inl LookupThrew, s)"
    by (simp add: completeExchangeTransaction_def look)
  show "reject_exchange cfg c msg_text s = (RejectError, s)"
    if "isAdmin cfg c \<and> match_command ''/reject_exchange '' msg_text = Some key"
    using that by (simp add: reject_exchange_def look)
qed

section \<open>Withdrawal processing\<close>


lemma send_transfer_status:
  "send_transfer ch (tx\<lparr>status := st\<rparr>) = send_transfer ch tx"
  by (simp add: send_transfer_def cong: sum.case_cong)

lemma processWithdrawal_cases:
  "processWithdrawal ch now tx s =
     (case send_transfer ch tx of
        Inl e \<Rightarrow> (Failure e, save (tx\<lparr>status := failed, adminNotes := Some (''Failed: '' @ e)\<rparr>) s)
      | Inr (a, h) \<Rightarrow>
          (case wait ch h of
             Inl e \<Rightarrow> (Failure e,
                        save (tx\<lparr>status := failed, txHash := Some h,
                                 adminNotes := Some (''Failed: '' @ e)\<rparr>)
                          (s\<lparr>submitted := submitted s @ [(walletAddress tx, a)]\<rparr>))
           | Inr _ \<Rightarrow> (Success h,
                        save (tx\<lparr>status := completed, txHash := Some h,
                                 completedAt := Some now, confirmations := Some 1\<rparr>)
                          (s\<lparr>submitted := submitted s @ [(walletAddress tx, a)]\<rparr>))))"
  by (simp add: processWithdrawal_def mark_processing_def fail_withdrawal_def
      send_transfer_status Let_def save_def comp_def split: sum.splits prod.splits
      cong: map_cong)

text \<open>The gas limit throws, so no transfer is sent.\<close>

lemma send_transfer_fails: "\<exists>e. send_transfer ch tx = Inl e"
  by (simp add: send_transfer_def gasLimit_def split: sum.splits)

lemma processWithdrawal_fails:
  "\<exists>e. send_transfer ch tx = Inl e \<and>
       processWithdrawal ch now tx s
       = (Failure e, save (tx\<lparr>status := failed, adminNotes := Some (''Failed: '' @ e)\<rparr>) s)"
proof -
  obtain e where e: "send_transfer ch tx = Inl e" using send_transfer_fails by blast
  then show ?thesis by (subst processWithdrawal_cases) simp
qed

lemma findByPk_after_processing:
  assumes "findByPk (tx_id tx) s = Some stored" "tx_id t' = tx_id tx"
  shows "findByPk (tx_id tx) (save t' (s\<lparr>submitted := x\<rparr>)) = Some t'"
  using assms by (intro findByPk_save_same [where tx = stored]) simp_all

text \<open>
  C9. A withdrawal whose processing fails after the record was set to Processing ends
  as Failed with \<open>Failed: \<close> and the error message in its admin notes, and the caller
  gets the message; otherwise the record ends as Completed and the caller gets the hash
  of the transfer. There is no third outcome: the processor returns for every behaviour
  of the chain, with a success or with a failure that carries its reason. (As the gas
  limit is computed, it is the failure that every call returns: see \<open>gasLimit\<close>.)
\<close>

theorem withdrawal_failure_recorded:
  assumes "findByPk (tx_id tx) s = Some stored"
  shows "(case processWithdrawal ch now tx s of
            (Success h, s') \<Rightarrow>
              (\<exists>t'. findByPk (tx_id tx) s' = Some t' \<and> status t' = completed
                    \<and> txHash t' = Some h \<and> completedAt t' = Some now
                    \<and> confirmations t' = Some 1)
          | (Failure e, s') \<Rightarrow>
              (\<exists>t'. findByPk (tx_id tx) s' = Some t' \<and> status t' = failed
                    \<and> adminNotes t' = Some (''Failed: '' @ e)))
         \<and> (\<forall>e. send_transfer ch tx = Inl e \<longrightarrow>
                fst (processWithdrawal ch now tx s) = Failure e)
         \<and> (\<forall>a h e. send_transfer ch tx = Inr (a, h) \<and> wait ch h = Inl e \<longrightarrow>
                fst (processWithdrawal ch now tx s) = Failure e)
         \<and> (\<forall>a h u. send_transfer ch tx = Inr (a, h) \<and> wait ch h = Inr u \<longrightarrow>
                fst (processWithdrawal ch now tx s) = Success h)"
proof (intro conjI allI impI)
  show "case processWithdrawal ch now tx s of
            (Success h, s') \<Rightarrow>
              (\<exists>t'. findByPk (tx_id tx) s' = Some t' \<and> status t' = completed
                    \<and> txHash t' = Some h \<and> completedAt t' = Some now
                    \<and> confirmations t' = Some 1)
          | (Failure e, s') \<Rightarrow>
              (\<exists>t'. findByPk (tx_id tx) s' = Some t' \<and> status t' = failed
                    \<and> adminNotes t' = Some (''Failed: '' @ e))"
  proof (cases "send_transfer ch tx")
    case (Inl e)
    then show ?thesis
      using findByPk_save_same [OF assms, of "tx\<lparr>status := failed, adminNotes := Some (''Failed: '' @ e)\<rparr>"]
      by (simp add: processWithdrawal_cases)
  next
    case (Inr p)
    obtain a h where p: "p = (a, h)" by (cases p)
    show ?thesis
    proof (cases "wait ch h")
      case (Inl e)
      then show ?thesis
        using Inr p
          findByPk_after_processing [OF assms,
            of "tx\<lparr>status := failed, txHash := Some h, adminNotes := Some (''Failed: '' @ e)\<rparr>"]
        by (simp add: processWithdrawal_cases)
    next
      case (Inr u)
      then show ?thesis
        using \<open>send_transfer ch tx = Inr p\<close> p
          findByPk_after_processing [OF assms,
            of "tx\<lparr>status := completed, txHash := Some h, completedAt := Some now,
                  confirmations := Some 1\<rparr>"]
        by (simp add: processWithdrawal_cases)
    qed
  qed
next
  fix e assume "send_transfer ch tx = Inl e"
  then show "fst (processWithdrawal ch now tx s) = Failure e"
    by (simp add: processWithdrawal_cases)
next
  fix a h e assume "send_transfer ch tx = Inr (a, h) \<and> wait ch h = Inl e"
  then show "fst (processWithdrawal ch now tx s) = Failure e"
    by (simp add: processWithdrawal_cases)
next
  fix a h u assume "send_transfer ch tx = Inr (a, h) \<and> wait ch h = Inr u"
  then show "fst (processWithdrawal ch now tx s) = Success h"
    by (simp add: processWithdrawal_cases)
qed

lemma ex_send_transfer: "send_transfer (ex_chain v) ex_withdrawal = Inl mixed_types_error"
  by (simp add: send_transfer_def gasLimit_def ex_chain_def ex_withdrawal_def blank_def)


lemma ex_requested_find: "findByPk 2 ex_requested = Some ex_withdrawal"
  by (simp add: findByPk_def ex_requested_def ex_funded_def ex_withdrawal_def blank_def)

lemma ex_refused_find: "findByPk 2 (ex_refused e) = Some (ex_failed e)"
  by (simp add: findByPk_def ex_refused_def ex_funded_def ex_failed_def ex_withdrawal_def
      blank_def)

lemma ex_save_failed: "save (ex_failed e) ex_requested = ex_refused e"
  by (simp add: save_def ex_requested_def ex_refused_def ex_funded_def ex_failed_def
      ex_withdrawal_def blank_def)


lemma ex_process:
  "processWithdrawal (ex_chain v) now ex_withdrawal ex_requested
   = (Failure mixed_types_error, ex_refused mixed_types_error)"
proof -
  have "ex_withdrawal\<lparr>status := failed, adminNotes := Some (''Failed: '' @ mixed_types_error)\<rparr>
        = ex_failed mixed_types_error"
    by (simp add: ex_failed_def)
  then show ?thesis
    by (subst processWithdrawal_cases) (simp add: ex_send_transfer ex_save_failed)
qed




theorem withdrawal_failure_recorded_witness:
  "findByPk (tx_id ex_withdrawal) ex_requested = Some ex_withdrawal
   \<and> send_transfer (ex_chain 0) ex_withdrawal = Inl mixed_types_error
   \<and> fst (processWithdrawal (ex_chain 0) 7 ex_withdrawal ex_requested) = Failure mixed_types_error
   \<and> (\<exists>t'. findByPk (tx_id ex_withdrawal)
               (snd (processWithdrawal (ex_chain 0) 7 ex_withdrawal ex_requested)) = Some t'
           \<and> status t' = failed
           \<and> adminNotes t' = Some (''Failed: '' @ mixed_types_error))"
proof -
  have f: "findByPk (tx_id ex_withdrawal) ex_requested = Some ex_withdrawal"
    using ex_requested_find by (simp add: ex_withdrawal_def)
  have st: "send_transfer (ex_chain 0) ex_withdrawal = Inl mixed_types_error"
    by (rule ex_send_transfer)
  note inst = withdrawal_failure_recorded [OF f, where ch = "ex_chain 0" and now = 7]
  from inst st
  have r: "fst (processWithdrawal (ex_chain 0) 7 ex_withdrawal ex_requested)
           = Failure mixed_types_error"
    by blast
  then obtain s' where p: "processWithdrawal (ex_chain 0) 7 ex_withdrawal ex_requested
                           = (Failure mixed_types_error, s')"
    by (cases "processWithdrawal (ex_chain 0) 7 ex_withdrawal ex_requested") simp
  from inst have "case processWithdrawal (ex_chain 0) 7 ex_withdrawal ex_requested of
            (Success h, s') \<Rightarrow>
              (\<exists>t'. findByPk (tx_id ex_withdrawal) s' = Some t' \<and> status t' = completed
                    \<and> txHash t' = Some h \<and> completedAt t' = Some 7
                    \<and> confirmations t' = Some 1)
          | (Failure e, s') \<Rightarrow>
              (\<exists>t'. findByPk (tx_id ex_withdrawal) s' = Some t' \<and> status t' = failed
                    \<and> adminNotes t' = Some (''Failed: '' @ e))"
    by (rule conjunct1)
  then have "\<exists>t'. findByPk (tx_id ex_withdrawal) s' = Some t' \<and> status t' = failed
                  \<and> adminNotes t' = Some (''Failed: '' @ mixed_types_error)"
    by (simp add: p)
  with f st r p show ?thesis by simp
qed




lemma ex_key: "pk_of_text ''2'' = Some (int 2)"
  by (simp add: pk_of_text_def trim_blanks_def is_space_def all_digits_def nat_of_digits_def
      digit_val_def)

theorem exchange_decision_guarded_witness:
  "pk_of_text ''2'' = Some (int 2) \<and> findByPk 2 ex_exchanging = Some ex_exchange
   \<and> tx_type ex_exchange = exchange \<and> status ex_exchange = pending \<and> isAdmin ex_cfg ''1''
   \<and> match_command ''/reject_exchange '' ''/reject_exchange 2'' = Some ''2''
   \<and> completeExchangeTransaction 9 ''2'' ''paid'' ex_exchanging
       = (Inr (ex_exchange\<lparr>status := completed, completedAt := Some 9,
                             adminNotes := Some ''paid''\<rparr>),
          save (ex_exchange\<lparr>status := completed, completedAt := Some 9,
                             adminNotes := Some ''paid''\<rparr>) ex_exchanging)
   \<and> reject_exchange ex_cfg ''1'' ''/reject_exchange 2'' ex_exchanging
       = (ExchangeRejected (ex_exchange\<lparr>status := failed,
                                          adminNotes := Some default_rejection\<rparr>)
            default_rejection,
          save (ex_exchange\<lparr>status := failed, adminNotes := Some default_rejection\<rparr>)
            ex_exchanging)
   \<and> snd (reject_exchange ex_cfg ''42'' ''/reject_exchange 2'' ex_exchanging) = ex_exchanging
   \<and> match_command ''/reject_exchange '' ''/reject_exchange 2 fraud suspected''
       = Some ''2 fraud suspected''
   \<and> reject_exchange ex_cfg ''1'' ''/reject_exchange 2 fraud suspected'' ex_exchanging
       = (RejectError, ex_exchanging)
   \<and> completeExchangeTransaction 9 ''2 paid'' ''paid'' ex_exchanging
       = (Inl LookupThrew, ex_exchanging)
   \<and> match_command ''/reject_exchange '' ex_two_lines = Some ''2''
   \<and> reject_exchange ex_cfg ''1'' ex_two_lines ex_exchanging
       = (ExchangeRejected (ex_exchange\<lparr>status := failed, adminNotes := Some ''suspected''\<rparr>)
            ''suspected'',
          save (ex_exchange\<lparr>status := failed, adminNotes := Some ''suspected''\<rparr>)
            ex_exchanging)"
proof -
  have f: "findByPk 2 ex_exchanging = Some ex_exchange"
    by (simp add: findByPk_def ex_exchanging_def ex_funded_def ex_exchange_def blank_def)
  have t: "tx_type ex_exchange = exchange" "status ex_exchange = pending"
    by (simp_all add: ex_exchange_def blank_def)
  have a: "isAdmin ex_cfg ''1''" "\<not> isAdmin ex_cfg ''42''"
    by (simp_all add: isAdmin_def ex_cfg_def)
  have u: "chatId ex_exchange \<in> users ex_exchanging"
    by (simp add: ex_exchange_def ex_exchanging_def ex_funded_def blank_def)
  have w1: "''2 fraud suspected'' = ''2'' @ CHR '' '' # ''fraud suspected''
            \<and> (\<exists>x\<in>set ''2''. \<not> is_space x) \<and> (\<exists>y\<in>set ''fraud suspected''. \<not> is_space y)"
    by (simp add: is_space_def)
  have w2: "''2 paid'' = ''2'' @ CHR '' '' # ''paid''
            \<and> (\<exists>x\<in>set ''2''. \<not> is_space x) \<and> (\<exists>y\<in>set ''paid''. \<not> is_space y)"
    by (simp add: is_space_def)
  have l1: "''/reject_exchange 2'' = ''/reject_exchange '' @ ''2'' \<and> ''2'' \<noteq> []
            \<and> (\<forall>x\<in>set ''2''. \<not> is_line_break x)"
    by (simp add: is_line_break_def)
  have l2: "''/reject_exchange 2 fraud suspected'' = ''/reject_exchange '' @ ''2 fraud suspected''
            \<and> ''2 fraud suspected'' \<noteq> []
            \<and> (\<forall>x\<in>set ''2 fraud suspected''. \<not> is_line_break x)"
    by (simp add: is_line_break_def)
  have nsp: "CHR '' '' \<notin> set ''2''" by simp
  note admin = exchange_decision_guarded
      [where key = "''2''" and msg_text = "''/reject_exchange 2''" and s = ex_exchanging
         and now = 9 and memo = "''paid''" and cfg = ex_cfg and c = "''1''"]
  note other = exchange_decision_guarded
      [where key = "''2''" and msg_text = "''/reject_exchange 2''" and s = ex_exchanging
         and now = 9 and memo = "''paid''" and cfg = ex_cfg and c = "''42''"]
  note reason = exchange_decision_guarded
      [where key = "''2 fraud suspected''" and msg_text = "''/reject_exchange 2 fraud suspected''"
         and s = ex_exchanging and now = 9 and memo = "''paid''" and cfg = ex_cfg
         and c = "''1''"]
  note paid = exchange_decision_guarded
      [where key = "''2 paid''" and msg_text = "''/reject_exchange 2 paid''"
         and s = ex_exchanging and now = 9 and memo = "''paid''" and cfg = ex_cfg
         and c = "''1''"]
  from admin l1 nsp
  have m1: "match_command ''/reject_exchange '' ''/reject_exchange 2'' = Some ''2''"
    and d: "rejection_reason ''/reject_exchange 2'' = default_rejection"
    by blast+
  from reason l2
  have m2: "match_command ''/reject_exchange '' ''/reject_exchange 2 fraud suspected''
            = Some ''2 fraud suspected''"
    by blast
  from admin have "\<forall>i tx. pk_of_text ''2'' = Some (int i) \<and> findByPk i ex_exchanging = Some tx
            \<and> tx_type tx = exchange \<and> status tx = pending \<longrightarrow>
      (let done = tx\<lparr>status := completed, completedAt := Some 9,
                       adminNotes := (if ''paid'' = [] then adminNotes tx else Some ''paid'')\<rparr>;
           rejected = tx\<lparr>status := failed,
                          adminNotes := Some (rejection_reason ''/reject_exchange 2'')\<rparr>
       in completeExchangeTransaction 9 ''2'' ''paid'' ex_exchanging = (Inr done, save done ex_exchanging)
          \<and> findByPk i (save done ex_exchanging) = Some done
          \<and> (isAdmin ex_cfg ''1''
               \<and> match_command ''/reject_exchange '' ''/reject_exchange 2'' = Some ''2'' \<longrightarrow>
               reject_exchange ex_cfg ''1'' ''/reject_exchange 2'' ex_exchanging
               = (if chatId tx \<in> users ex_exchanging
                  then ExchangeRejected rejected (rejection_reason ''/reject_exchange 2'')
                  else RejectError, save rejected ex_exchanging)
               \<and> findByPk i (save rejected ex_exchanging) = Some rejected))"
    by (rule conjunct1)
  from this [rule_format, of 2 ex_exchange] ex_key f t a(1) u d m1
  have acts: "completeExchangeTransaction 9 ''2'' ''paid'' ex_exchanging
       = (Inr (ex_exchange\<lparr>status := completed, completedAt := Some 9,
                             adminNotes := Some ''paid''\<rparr>),
          save (ex_exchange\<lparr>status := completed, completedAt := Some 9,
                             adminNotes := Some ''paid''\<rparr>) ex_exchanging)
     \<and> reject_exchange ex_cfg ''1'' ''/reject_exchange 2'' ex_exchanging
       = (ExchangeRejected (ex_exchange\<lparr>status := failed,
                                          adminNotes := Some default_rejection\<rparr>)
            default_rejection,
          save (ex_exchange\<lparr>status := failed, adminNotes := Some default_rejection\<rparr>)
            ex_exchanging)"
    by (simp add: Let_def)
  from other a(2)
  have "\<exists>r. reject_exchange ex_cfg ''42'' ''/reject_exchange 2'' ex_exchanging = (r, ex_exchanging)
            \<and> (\<forall>t m. r \<noteq> ExchangeRejected t m)"
    by blast
  then have no: "snd (reject_exchange ex_cfg ''42'' ''/reject_exchange 2'' ex_exchanging)
                 = ex_exchanging"
    by auto
  have r1: "reject_exchange ex_cfg ''1'' ''/reject_exchange 2 fraud suspected'' ex_exchanging
            = (RejectError, ex_exchanging)"
    using reason w1 a(1) m2 by blast
  have r2: "completeExchangeTransaction 9 ''2 paid'' ''paid'' ex_exchanging
            = (Inl LookupThrew, ex_exchanging)"
    using paid w2 by blast
  have m3: "match_command ''/reject_exchange '' ex_two_lines = Some ''2''"
    by (simp add: ex_two_lines_def is_line_break_def)
  have d3: "rejection_reason ex_two_lines = ''suspected''"
    by (simp add: rejection_reason_def ex_two_lines_def)
  note lines = exchange_decision_guarded
      [where key = "''2''" and msg_text = ex_two_lines and s = ex_exchanging
         and now = 9 and memo = "''paid''" and cfg = ex_cfg and c = "''1''"]
  from lines have "\<forall>i tx. pk_of_text ''2'' = Some (int i) \<and> findByPk i ex_exchanging = Some tx
            \<and> tx_type tx = exchange \<and> status tx = pending \<longrightarrow>
      (let done = tx\<lparr>status := completed, completedAt := Some 9,
                       adminNotes := (if ''paid'' = [] then adminNotes tx else Some ''paid'')\<rparr>;
           rejected = tx\<lparr>status := failed,
                          adminNotes := Some (rejection_reason ex_two_lines)\<rparr>
       in completeExchangeTransaction 9 ''2'' ''paid'' ex_exchanging = (Inr done, save done ex_exchanging)
          \<and> findByPk i (save done ex_exchanging) = Some done
          \<and> (isAdmin ex_cfg ''1''
               \<and> match_command ''/reject_exchange '' ex_two_lines = Some ''2'' \<longrightarrow>
               reject_exchange ex_cfg ''1'' ex_two_lines ex_exchanging
               = (if chatId tx \<in> users ex_exchanging
                  then ExchangeRejected rejected (rejection_reason ex_two_lines)
                  else RejectError, save rejected ex_exchanging)
               \<and> findByPk i (save rejected ex_exchanging) = Some rejected))"
    by (rule conjunct1)
  from this [rule_format, of 2 ex_exchange] ex_key f t a(1) u d3 m3
  have r3: "reject_exchange ex_cfg ''1'' ex_two_lines ex_exchanging
       = (ExchangeRejected (ex_exchange\<lparr>status := failed, adminNotes := Some ''suspected''\<rparr>)
            ''suspected'',
          save (ex_exchange\<lparr>status := failed, adminNotes := Some ''suspected''\<rparr>)
            ex_exchanging)"
    by (simp add: Let_def)
  from ex_key f t a(1) m1 acts no m2 r1 r2 m3 r3 show ?thesis by (intro conjI) simp_all
qed

lemma ex_requested_volume: "volume (transactions ex_requested) < 10 ^ 20"
  by (simp add: volume_def ex_requested_def ex_funded_def ex_withdrawal_def blank_def)

theorem getUserBalance_clamped_sum_witness:
  "account_volume (transactions ex_requested) ''42'' < 10 ^ 20
   \<and> account_volume [ex_withdrawal] ''42'' < 10 ^ 20
   \<and> getUserBalance (transactions ex_requested) ''42'' = ''0.400000''
   \<and> getUserBalance [ex_withdrawal] ''42'' = ''0.000000''"
proof -
  have v: "account_volume [ex_withdrawal] ''42'' < 10 ^ 20"
    by (simp add: account_volume_def volume_def ex_withdrawal_def blank_def)
  have w: "account_volume (transactions ex_requested) ''42'' < 10 ^ 20"
    using account_volume_le [of "transactions ex_requested" "''42''"] ex_requested_volume
    by linarith
  have "raw_balance (transactions ex_requested) ''42'' = 400000"
    by (simp add: raw_balance_def sum_amounts_def ex_requested_def ex_funded_def
        ex_withdrawal_def blank_def)
  moreover have "raw_balance [ex_withdrawal] ''42'' = - 50000000"
    by (simp add: raw_balance_def sum_amounts_def ex_withdrawal_def blank_def)
  moreover have "toFixed 6 (Decimal 400000 6) = ''0.400000''"
    by (simp add: dec_eval)
  ultimately show ?thesis
    using getUserBalance_clamped_sum [OF w] getUserBalance_clamped_sum [OF v] w v
    by (simp add: zero_rendering)
qed

section \<open>Deposit intents\<close>

lemma deposit_cmd_opens:
  "deposit_cmd T r c arg s0 = (DepositInstructions a, s) \<Longrightarrow>
   depositRequests s c = Some \<lparr>dr_amount = a, dr_timestamp = T\<rparr> \<and>
   (\<exists>d. a = toFixed 6 d) \<and> transactions s = transactions s0"
  by (auto simp: deposit_cmd_def Let_def registerUser_def split: option.splits)

text \<open>
  C7. An account has an intent opened at time \<open>T\<close>. A confirmation with a well-formed
  hash at any time later than \<open>T\<close> plus 24 hours is answered with the expiry message, the
  intent is removed from the map by that very call and nothing else changes, so that
  the next confirmation finds no intent at all.
\<close>

theorem expired_intent_unusable:
  assumes "isValidTxHash h"
    and "depositRequests s c = Some req"
    and "dr_timestamp req + 24 * 60 * 60 * 1000 < now"
  shows "confirm cfg ch now c h s
           = (DepositRequestExpired,
              (registerUser c s)\<lparr>depositRequests := (depositRequests s)(c := None)\<rparr>)
         \<and> transactions (snd (confirm cfg ch now c h s)) = transactions s
         \<and> depositRequests (snd (confirm cfg ch now c h s)) c = None
         \<and> fst (confirm cfg' ch' now' c h (snd (confirm cfg ch now c h s)))
             = NoActiveDepositRequest"
proof -
  have 1: "confirm cfg ch now c h s
           = (DepositRequestExpired,
              (registerUser c s)\<lparr>depositRequests := (depositRequests s)(c := None)\<rparr>)"
    using assms by (simp add: confirm_def Let_def registerUser_def)
  show ?thesis
    using assms(1) unfolding 1 by (simp add: confirm_def Let_def registerUser_def)
qed

lemma ex_amount_sum: "plus_d (Decimal 10 0) (Decimal 1234 4) = Decimal 101234 4"
  by (simp add: plus_d_def align_def finalise_small)

lemma ex_amount_text: "toFixed 6 (Decimal 101234 4) = ''10.123400''"
  by (simp add: dec_eval)

lemma ex_base: "new_Decimal ''10'' = Some (Decimal 10 0)"
  by (simp add: dec_eval)

lemma ex_intent_eq:
  "ex_intent = \<lparr>users = {''42''}, transactions = [], rates = None,
     depositRequests = [''42'' \<mapsto> \<lparr>dr_amount = ''10.123400'', dr_timestamp = 1000\<rparr>],
     submitted = []\<rparr>"
  by (simp add: ex_intent_def deposit_cmd_def registerUser_def Let_def
      ex_amount_sum ex_amount_text ex_base)

lemma ex_hash_valid: "isValidTxHash ex_hash"
  by (simp add: isValidTxHash_def ex_hash_def is_hex_def)

theorem expired_intent_unusable_witness:
  "isValidTxHash ex_hash
   \<and> depositRequests ex_intent ''42'' = Some \<lparr>dr_amount = ''10.123400'', dr_timestamp = 1000\<rparr>
   \<and> (1000::int) + 24 * 60 * 60 * 1000 < 86401001
   \<and> fst (confirm ex_cfg (ex_chain 10123400000000000000) 86401001 ''42'' ex_hash ex_intent)
       = DepositRequestExpired
   \<and> depositRequests
        (snd (confirm ex_cfg (ex_chain 10123400000000000000) 86401001 ''42'' ex_hash ex_intent))
        ''42'' = None"
proof -
  have r: "depositRequests ex_intent ''42''
           = Some \<lparr>dr_amount = ''10.123400'', dr_timestamp = 1000\<rparr>"
    by (simp add: ex_intent_eq)
  have t: "dr_timestamp \<lparr>dr_amount = ''10.123400'', dr_timestamp = 1000\<rparr>
             + 24 * 60 * 60 * 1000 < 86401001"
    by simp
  show ?thesis
    using expired_intent_unusable [OF ex_hash_valid r t, of ex_cfg "ex_chain 10123400000000000000"]
      ex_hash_valid r
    by simp
qed

section \<open>Deposit verification\<close>

lemma next_id_fresh: "r \<in> set xs \<Longrightarrow> tx_id r \<noteq> next_id xs"
proof -
  have "tx_id r \<le> foldr max (map tx_id xs) 0" if "r \<in> set xs" for r
    using that by (induction xs) auto
  then show "r \<in> set xs \<Longrightarrow> tx_id r \<noteq> next_id xs"
    by (fastforce simp: next_id_def)
qed

lemma save_created:
  assumes "tx_id t = next_id (transactions s)"
  shows "save t (snd (create tx s)) = s\<lparr>transactions := transactions s @ [t]\<rparr>"
proof -
  have "map (\<lambda>r. if tx_id r = tx_id t then t else r) (transactions s) = transactions s"
    using assms next_id_fresh [of _ "transactions s"] by (intro map_idI) auto
  then show ?thesis
    using assms by (simp add: save_def create_def Let_def)
qed

lemma rounded_idem: "rounded dp (rounded dp d) = rounded dp d"
  by (simp add: rounded_def rescale_def)

lemma to_column_rounded: "to_column dp (rounded dp d) = coeff (rounded dp d)"
  by (simp add: to_column_def rounded_idem)

lemma verify_reaches_amount:
  assumes "getTransactionReceipt ch h = Inr (Some rc)"
    and "getBlockNumber ch = Inr b"
    and "minConfirmations cfg \<le> b - blockNumber rc"
    and "find_transfer cfg (logs rc) = Inr (Some ev)"
    and "log_parsed ev = TransferEvent sender recipient v"
    and "toLowerCase recipient = toLowerCase (depositAddress cfg)"
  shows "verifyDepositTransaction cfg ch h expected = check_amount ch expected v (b - blockNumber rc)"
  using assms by (simp add: verifyDepositTransaction_def Let_def)

lemma check_amount_cases:
  assumes "decimals ch = Inr dec" and "new_Decimal expected = Some e"
  shows "check_amount ch expected v k =
           (if equals_d (Decimal (int v) dec) e then Verified (Decimal (int v) dec) k
            else NotVerified (AmountMismatch expected (Decimal (int v) dec)))"
  using assms by (simp add: check_amount_def Let_def)


lemma confirm_verified_eq:
  assumes "isValidTxHash h"
    and "depositRequests s c = Some req"
    and "now \<le> dr_timestamp req + 24 * 60 * 60 * 1000"
    and "verifyDepositTransaction cfg ch h (dr_amount req) = Verified a k"
    and "new_Decimal (dr_amount req) = Some e"
  shows "confirm cfg ch now c h s
        = (DepositVerified (toFixed 6 (amount_d (settled c h now k e s)))
             (next_id (transactions s)) h
             (formatUSDT (getUserBalance (transactions s @ [settled c h now k e s]) c)),
           (registerUser c s)\<lparr>transactions := transactions s @ [settled c h now k e s],
                depositRequests := (depositRequests s)(c := None)\<rparr>)"
proof -
  let ?s1 = "registerUser c s"
  let ?t = "settled c h now k e s"
  have tr: "transactions ?s1 = transactions s" and dr: "depositRequests ?s1 = depositRequests s"
    by (simp_all add: registerUser_def)
  have cd: "createDeposit c (dr_amount req) ?s1
            = Some (create (blank\<lparr>tx_type := deposit, chatId := c, amount := to_column 6 e,
                                   status := pending\<rparr>) ?s1)"
    using assms(5) by (simp add: createDeposit_def)
  obtain tx s2 where cr: "create (blank\<lparr>tx_type := deposit, chatId := c, amount := to_column 6 e,
                                   status := pending\<rparr>) ?s1 = (tx, s2)"
    by (cases "create (blank\<lparr>tx_type := deposit, chatId := c, amount := to_column 6 e,
                                   status := pending\<rparr>) ?s1")
  have tx: "tx\<lparr>txHash := Some h, status := completed, completedAt := Some now,
                 confirmations := Some k\<rparr> = ?t"
    using cr by (auto simp: create_def Let_def settled_def tr)
  have idt: "tx_id tx = next_id (transactions s)" and amt: "amount tx = amount ?t"
    using cr by (auto simp: create_def Let_def settled_def tr)
  have sv: "save ?t s2 = ?s1\<lparr>transactions := transactions s @ [?t]\<rparr>"
    using save_created [of ?t ?s1 "blank\<lparr>tx_type := deposit, chatId := c,
        amount := to_column 6 e, status := pending\<rparr>"] cr
    by (simp add: settled_def tr)
  show ?thesis
    using assms(1-4) by (simp add: confirm_def Let_def dr cd cr tx sv idt amt amount_d_def)
qed

lemma confirm_verified:
  assumes "isValidTxHash h"
    and "depositRequests s c = Some req"
    and "now \<le> dr_timestamp req + 24 * 60 * 60 * 1000"
    and "verifyDepositTransaction cfg ch h (dr_amount req) = Verified a k"
    and "new_Decimal (dr_amount req) = Some e"
  shows "snd (confirm cfg ch now c h s)
           = (registerUser c s)\<lparr>transactions := transactions s @ [settled c h now k e s],
                                 depositRequests := (depositRequests s)(c := None)\<rparr>"
    and "\<exists>shown bal. fst (confirm cfg ch now c h s)
           = DepositVerified shown (next_id (transactions s)) h bal"
  by (simp_all add: confirm_verified_eq [OF assms])

lemma confirm_not_verified:
  assumes "isValidTxHash h"
    and "depositRequests s c = Some req"
    and "now \<le> dr_timestamp req + 24 * 60 * 60 * 1000"
    and "verifyDepositTransaction cfg ch h (dr_amount req) = NotVerified reason"
  shows "confirm cfg ch now c h s = (VerificationFailed reason, registerUser c s)"
  using assms by (simp add: confirm_def Let_def registerUser_def)

lemma sum_amounts_append:
  "sum_amounts k S (xs @ ys) c = sum_amounts k S xs c + sum_amounts k S ys c"
  by (simp add: sum_amounts_def)

lemma raw_balance_settled:
  "raw_balance (xs @ [settled c h now k e s]) c = raw_balance xs c + to_column 6 e"
  by (simp add: raw_balance_def sum_amounts_append)
    (simp add: sum_amounts_def settled_def)

lemma equals_d_nonneg:
  assumes "equals_d (Decimal (int v) dec) e"
  shows "0 \<le> coeff e"
proof -
  let ?k = "max dec (scale e)"
  have "align e ?k = int v * 10 ^ (?k - dec)"
    using assms by (simp add: equals_d_def align_def Let_def)
  then have "0 \<le> align e ?k" by simp
  then show ?thesis
    using align_neg_iff [of e ?k] by linarith
qed

lemma balance_reads:
  "volume txs < 10 ^ 20 \<Longrightarrow>
   new_Decimal (getUserBalance txs c) = Some (Decimal (max 0 (raw_balance txs c)) 6)"
  by (simp add: getUserBalance_raw new_Decimal_toFixed rounded_same_scale)

lemma volume_append: "volume (xs @ ys) = volume xs + volume ys"
  by (simp add: volume_def)

lemma balance_reads_account:
  "account_volume txs c < 10 ^ 20 \<Longrightarrow>
   new_Decimal (getUserBalance txs c) = Some (Decimal (max 0 (raw_balance txs c)) 6)"
  by (simp add: getUserBalance_raw_account new_Decimal_toFixed rounded_same_scale)

lemma account_volume_append:
  "account_volume (xs @ ys) c = account_volume xs c + account_volume ys c"
  by (simp add: account_volume_def volume_append)

lemma account_volume_nonneg: "0 \<le> account_volume xs c"
  unfolding account_volume_def by (rule volume_nonneg)

lemma rounded_form: "rounded dp d = Decimal (coeff (rounded dp d)) dp"
  by (simp add: rounded_def)

text \<open>
  C5, amended. A confirmation reaches the comparison of amounts when the hash is well
  formed, the account has an unexpired intent (whose amount is always a rendering with
  six digits), the receipt is found with enough confirmations, and it holds a transfer of
  the token to the deposit address. The transferred value is then compared with the
  expected amount as exact decimals. When they differ the answer is the amount mismatch
  and nothing is stored. When they are equal, and the amount is one that the column of
  the table holds (below \<open>10 ^ 18\<close>, that is \<open>10 ^ 24\<close> millionths), a Completed deposit of
  the expected amount is appended and the sum behind the balance grows by exactly that
  amount. The computed
  balance grows by that amount too when the account was not overdrawn and the volume of
  the account stays below \<open>10 ^ 20\<close> millionths; for an overdrawn account the clamp at zero
  hides the part of the deposit that covers the deficit.
\<close>

theorem deposit_amount_exact:
  assumes "isValidTxHash h"
    and "depositRequests s c = Some \<lparr>dr_amount = toFixed 6 d, dr_timestamp = T\<rparr>"
    and "now \<le> T + 24 * 60 * 60 * 1000"
    and "getTransactionReceipt ch h = Inr (Some rc)"
    and "getBlockNumber ch = Inr b"
    and "minConfirmations cfg \<le> b - blockNumber rc"
    and "find_transfer cfg (logs rc) = Inr (Some ev)"
    and "log_parsed ev = TransferEvent sender recipient v"
    and "toLowerCase recipient = toLowerCase (depositAddress cfg)"
    and "decimals ch = Inr dec"
  shows "(\<not> equals_d (Decimal (int v) dec) (rounded 6 d) \<longrightarrow>
            confirm cfg ch now c h s
              = (VerificationFailed (AmountMismatch (toFixed 6 d) (Decimal (int v) dec)),
                 registerUser c s)
            \<and> transactions (snd (confirm cfg ch now c h s)) = transactions s)
       \<and> (equals_d (Decimal (int v) dec) (rounded 6 d) \<and> coeff (rounded 6 d) < 10 ^ 24 \<longrightarrow>
            (\<exists>shown bal. fst (confirm cfg ch now c h s)
                 = DepositVerified shown (next_id (transactions s)) h bal)
            \<and> transactions (snd (confirm cfg ch now c h s))
                 = transactions s @ [settled c h now (b - blockNumber rc) (rounded 6 d) s]
            \<and> amount (settled c h now (b - blockNumber rc) (rounded 6 d) s)
                 = coeff (rounded 6 d)
            \<and> raw_balance (transactions (snd (confirm cfg ch now c h s))) c
                 = raw_balance (transactions s) c + coeff (rounded 6 d)
            \<and> (0 \<le> raw_balance (transactions s) c
                \<and> account_volume (transactions (snd (confirm cfg ch now c h s))) c < 10 ^ 20 \<longrightarrow>
                 (\<exists>old. new_Decimal (getUserBalance (transactions s) c) = Some (Decimal old 6)
                    \<and> new_Decimal (getUserBalance (transactions (snd (confirm cfg ch now c h s))) c)
                        = Some (Decimal (old + coeff (rounded 6 d)) 6))))"
proof -
  let ?req = "\<lparr>dr_amount = toFixed 6 d, dr_timestamp = T\<rparr>"
  let ?e = "rounded 6 d"
  let ?k = "b - blockNumber rc"
  have parse: "new_Decimal (dr_amount ?req) = Some ?e"
    by (simp add: new_Decimal_toFixed)
  have fresh: "now \<le> dr_timestamp ?req + 24 * 60 * 60 * 1000"
    using assms(3) by simp
  have v: "verifyDepositTransaction cfg ch h (toFixed 6 d)
           = (if equals_d (Decimal (int v) dec) ?e then Verified (Decimal (int v) dec) ?k
              else NotVerified (AmountMismatch (toFixed 6 d) (Decimal (int v) dec)))"
    using verify_reaches_amount [OF assms(4-9), of "toFixed 6 d"]
      check_amount_cases [OF assms(10), of "toFixed 6 d" ?e v ?k]
    by (simp add: new_Decimal_toFixed)
  show ?thesis
  proof (intro conjI impI)
    assume ne: "\<not> equals_d (Decimal (int v) dec) ?e"
    then have "verifyDepositTransaction cfg ch h (dr_amount ?req)
               = NotVerified (AmountMismatch (toFixed 6 d) (Decimal (int v) dec))"
      by (simp add: v)
    from confirm_not_verified [OF assms(1,2) fresh this]
    show m: "confirm cfg ch now c h s
              = (VerificationFailed (AmountMismatch (toFixed 6 d) (Decimal (int v) dec)),
                 registerUser c s)" .
    show "transactions (snd (confirm cfg ch now c h s)) = transactions s"
      unfolding m by (simp add: registerUser_def)
  next
    assume "equals_d (Decimal (int v) dec) ?e \<and> coeff ?e < 10 ^ 24"
    then have eq: "equals_d (Decimal (int v) dec) ?e" by simp
    then have ok: "verifyDepositTransaction cfg ch h (dr_amount ?req)
                   = Verified (Decimal (int v) dec) ?k"
      by (simp add: v)
    note cv = confirm_verified [OF assms(1,2) fresh ok parse]
    show "\<exists>shown bal. fst (confirm cfg ch now c h s)
                 = DepositVerified shown (next_id (transactions s)) h bal"
      by (rule cv(2))
    show tr: "transactions (snd (confirm cfg ch now c h s))
                 = transactions s @ [settled c h now ?k ?e s]"
      unfolding cv(1) by simp
    show "amount (settled c h now ?k ?e s) = coeff ?e"
      by (simp add: settled_def to_column_rounded)
    show raw: "raw_balance (transactions (snd (confirm cfg ch now c h s))) c
                 = raw_balance (transactions s) c + coeff ?e"
      unfolding tr by (simp add: raw_balance_settled to_column_rounded)
    {
      assume h: "0 \<le> raw_balance (transactions s) c
                 \<and> account_volume (transactions (snd (confirm cfg ch now c h s))) c < 10 ^ 20"
      then have nonneg: "0 \<le> raw_balance (transactions s) c"
        and after: "account_volume (transactions (snd (confirm cfg ch now c h s))) c < 10 ^ 20"
        by simp_all
      have "0 \<le> account_volume [settled c h now ?k ?e s] c" by (rule account_volume_nonneg)
      then have before: "account_volume (transactions s) c < 10 ^ 20"
        using after unfolding tr account_volume_append by linarith
      have pos: "0 \<le> coeff ?e" using eq by (rule equals_d_nonneg)
      have 1: "new_Decimal (getUserBalance (transactions s) c)
               = Some (Decimal (raw_balance (transactions s) c) 6)"
        using nonneg by (simp add: balance_reads_account [OF before] max_def)
      have 2: "new_Decimal (getUserBalance (transactions (snd (confirm cfg ch now c h s))) c)
            = Some (Decimal (raw_balance (transactions s) c + coeff ?e) 6)"
        using nonneg pos by (simp add: balance_reads_account [OF after] raw max_def)
      from 1 2
      show "\<exists>old. new_Decimal (getUserBalance (transactions s) c) = Some (Decimal old 6)
                    \<and> new_Decimal (getUserBalance (transactions (snd (confirm cfg ch now c h s))) c)
                        = Some (Decimal (old + coeff ?e) 6)"
        by blast
    }
  qed
qed

section \<open>The example chain\<close>

lemma ex_receipt_found: "getTransactionReceipt (ex_chain v) ex_hash = Inr (Some (ex_receipt v))"
  by (simp add: ex_chain_def)

lemma ex_height: "getBlockNumber (ex_chain v) = Inr 106"
  by (simp add: ex_chain_def)

lemma ex_deep: "minConfirmations ex_cfg \<le> 106 - blockNumber (ex_receipt v)"
  by (simp add: ex_cfg_def ex_receipt_def)

lemma ex_event:
  "find_transfer ex_cfg (logs (ex_receipt v))
   = Inr (Some \<lparr>log_parsed = TransferEvent ex_wallet ex_deposit_address v,
                 log_address = ex_usdt\<rparr>)"
proof -
  have "toLowerCase (toLowerCase ex_usdt) = toLowerCase ex_usdt"
    by (simp add: ex_usdt_lower) (simp add: toLowerCase_def lower_char_def)
  then show ?thesis
    by (simp add: find_transfer_def ex_receipt_def ex_cfg_def)
qed

lemma ex_decimals: "decimals (ex_chain v) = Inr 18"
  by (simp add: ex_chain_def)

lemma ex_expected: "rounded 6 (Decimal 101234 4) = Decimal 10123400 6"
  by (simp add: rounded_def rescale_def)

lemma ex_verified:
  "verifyDepositTransaction ex_cfg ex_paid ex_hash ''10.123400''
   = Verified (Decimal 10123400000000000000 18) 6"
proof -
  have p: "new_Decimal ''10.123400'' = Some (Decimal 10123400 6)"
    using new_Decimal_toFixed [of 6 "Decimal 101234 4"]
    by (simp add: ex_amount_text ex_expected)
  have "equals_d (Decimal (int 10123400000000000000) 18) (Decimal 10123400 6)"
    by (simp add: equals_d_def align_def)
  then show ?thesis
    using verify_reaches_amount
        [OF ex_receipt_found ex_height ex_deep ex_event, where expected = "''10.123400''"
           and v1 = 10123400000000000000]
      check_amount_cases [OF ex_decimals p, where v = 10123400000000000000 and k = 6]
    by (simp add: ex_paid_def ex_cfg_def ex_receipt_def)
qed

lemma ex_parse: "new_Decimal ''10.123400'' = Some (Decimal 10123400 6)"
  using new_Decimal_toFixed [of 6 "Decimal 101234 4"]
  by (simp add: ex_amount_text ex_expected)

lemma ex_settled:
  "settled c ex_hash now 6 (Decimal 10123400 6) s = ex_credit (next_id (transactions s)) c now"
  by (simp add: settled_def ex_credit_def to_column_def rounded_def rescale_def)

lemma ex_credit_text: "toFixed 6 (amount_d (ex_credit i c t)) = ''10.123400''"
proof -
  have "toFixed 6 (Decimal 10123400 6) = ''10.123400''"
    by (simp add: dec_eval)
  then show ?thesis by (simp add: amount_d_def ex_credit_def)
qed

lemma ex_confirm:
  assumes "depositRequests s c = Some \<lparr>dr_amount = ''10.123400'', dr_timestamp = T\<rparr>"
    and "now \<le> T + 24 * 60 * 60 * 1000"
  shows "confirm ex_cfg ex_paid now c ex_hash s
         = (DepositVerified ''10.123400'' (next_id (transactions s)) ex_hash
              (formatUSDT (getUserBalance
                 (transactions s @ [ex_credit (next_id (transactions s)) c now]) c)),
            (registerUser c s)\<lparr>transactions :=
                 transactions s @ [ex_credit (next_id (transactions s)) c now],
               depositRequests := (depositRequests s)(c := None)\<rparr>)"
  using confirm_verified_eq [OF ex_hash_valid assms(1), where now = now and cfg = ex_cfg
      and ch = ex_paid and e = "Decimal 10123400 6"] assms(2) ex_verified ex_parse
  by (simp add: ex_settled ex_credit_text)


lemma ex_next_ids:
  "next_id [] = 1"
  "next_id [ex_credit i c t] = Suc i"
  "next_id [ex_credit i c t, ex_credit j c' t'] = Suc (max i j)"
  by (simp_all add: next_id_def ex_credit_def)

lemma ex_once_eq:
  "transactions ex_once = [ex_credit 1 ''42'' 2000]"
  "depositRequests ex_once ''42'' = None"
  using ex_confirm [of ex_intent "''42''" 1000 2000]
  by (simp_all add: ex_once_def ex_intent_eq ex_next_ids registerUser_def)





lemma formatUSDT_balance:
  assumes "volume txs < 10 ^ 20"
  shows "formatUSDT (getUserBalance txs c) = getUserBalance txs c"
proof -
  have "toFixed 6 (Decimal (max 0 (raw_balance txs c)) 6) = getUserBalance txs c"
    using assms by (simp add: getUserBalance_raw)
  then show ?thesis
    using assms by (simp add: formatUSDT_def balance_reads)
qed

theorem deposit_amount_exact_witness:
  "isValidTxHash ex_hash
   \<and> depositRequests ex_intent ''42''
       = Some \<lparr>dr_amount = toFixed 6 (Decimal 101234 4), dr_timestamp = 1000\<rparr>
   \<and> \<not> equals_d (Decimal (int 10123500000000000000) 18) (rounded 6 (Decimal 101234 4))
   \<and> confirm ex_cfg ex_overpaid 2000 ''42'' ex_hash ex_intent
       = (VerificationFailed (AmountMismatch ''10.123400'' (Decimal 10123500000000000000 18)),
          ex_intent)
   \<and> equals_d (Decimal (int 10123400000000000000) 18) (rounded 6 (Decimal 101234 4))
   \<and> coeff (rounded 6 (Decimal 101234 4)) < 10 ^ 24
   \<and> raw_balance (transactions (snd (confirm ex_cfg ex_paid 2000 ''42'' ex_hash ex_intent)))
         ''42'' = 10123400
   \<and> 0 \<le> raw_balance (transactions ex_intent) ''42''
   \<and> account_volume (transactions (snd (confirm ex_cfg ex_paid 2000 ''42'' ex_hash ex_intent)))
         ''42'' < 10 ^ 20
   \<and> new_Decimal (getUserBalance (transactions ex_intent) ''42'') = Some (Decimal 0 6)
   \<and> new_Decimal (getUserBalance
        (transactions (snd (confirm ex_cfg ex_paid 2000 ''42'' ex_hash ex_intent))) ''42'')
       = Some (Decimal 10123400 6)"
proof -
  have r: "depositRequests ex_intent ''42''
           = Some \<lparr>dr_amount = toFixed 6 (Decimal 101234 4), dr_timestamp = 1000\<rparr>"
    by (simp add: ex_intent_eq ex_amount_text)
  have t: "(2000::int) \<le> 1000 + 24 * 60 * 60 * 1000" by simp
  have rec: "toLowerCase ex_deposit_address = toLowerCase (depositAddress ex_cfg)"
    by (simp add: ex_cfg_def)
  have lp: "log_parsed \<lparr>log_parsed = TransferEvent ex_wallet ex_deposit_address v,
                         log_address = ex_usdt\<rparr>
            = TransferEvent ex_wallet ex_deposit_address v" for v
    by simp
  have ne: "\<not> equals_d (Decimal (int 10123500000000000000) 18) (rounded 6 (Decimal 101234 4))"
    by (simp add: ex_expected equals_d_def align_def)
  have eq: "equals_d (Decimal (int 10123400000000000000) 18) (rounded 6 (Decimal 101234 4))"
    by (simp add: ex_expected equals_d_def align_def)
  have fits: "coeff (rounded 6 (Decimal 101234 4)) < 10 ^ 24"
    by (simp add: ex_expected)
  have reg: "registerUser ''42'' ex_intent = ex_intent"
    by (simp add: registerUser_def ex_intent_eq)
  have raw0: "raw_balance (transactions ex_intent) ''42'' = 0"
    by (simp add: ex_intent_eq raw_balance_def sum_amounts_def)
  have vol: "account_volume
               (transactions (snd (confirm ex_cfg ex_paid 2000 ''42'' ex_hash ex_intent))) ''42''
             < 10 ^ 20"
    using ex_once_eq(1) by (simp add: ex_once_def account_volume_def volume_def ex_credit_def)
  have old: "new_Decimal (getUserBalance (transactions ex_intent) ''42'') = Some (Decimal 0 6)"
    using balance_reads [of "transactions ex_intent" "''42''"]
    by (simp add: raw0) (simp add: ex_intent_eq volume_def)
  note over = deposit_amount_exact
    [OF ex_hash_valid r t ex_receipt_found [of 10123500000000000000]
      ex_height [of 10123500000000000000] ex_deep [of 10123500000000000000]
      ex_event [of 10123500000000000000] lp [of 10123500000000000000] rec
      ex_decimals [of 10123500000000000000]]
  note paid = deposit_amount_exact
    [OF ex_hash_valid r t ex_receipt_found [of 10123400000000000000]
      ex_height [of 10123400000000000000] ex_deep [of 10123400000000000000]
      ex_event [of 10123400000000000000] lp [of 10123400000000000000] rec
      ex_decimals [of 10123400000000000000]]
  have 1: "confirm ex_cfg ex_overpaid 2000 ''42'' ex_hash ex_intent
       = (VerificationFailed (AmountMismatch ''10.123400'' (Decimal 10123500000000000000 18)),
          ex_intent)"
  proof -
    from over ne
    have "confirm ex_cfg (ex_chain 10123500000000000000) 2000 ''42'' ex_hash ex_intent
          = (VerificationFailed (AmountMismatch (toFixed 6 (Decimal 101234 4))
               (Decimal (int 10123500000000000000) 18)), registerUser ''42'' ex_intent)"
      by blast
    then show ?thesis
      by (simp add: ex_overpaid_def ex_amount_text reg)
  qed
  have 2: "raw_balance (transactions (snd (confirm ex_cfg ex_paid 2000 ''42'' ex_hash ex_intent)))
         ''42'' = 10123400"
  proof -
    from paid eq fits
    have "raw_balance (transactions (snd (confirm ex_cfg (ex_chain 10123400000000000000)
             2000 ''42'' ex_hash ex_intent))) ''42''
          = raw_balance (transactions ex_intent) ''42'' + coeff (rounded 6 (Decimal 101234 4))"
      by blast
    then show ?thesis
      by (simp add: ex_paid_def raw0 ex_expected)
  qed
  have 3: "new_Decimal (getUserBalance
        (transactions (snd (confirm ex_cfg ex_paid 2000 ''42'' ex_hash ex_intent))) ''42'')
       = Some (Decimal 10123400 6)"
  proof -
    have nn: "0 \<le> raw_balance (transactions ex_intent) ''42''" by (simp add: raw0)
    have vol': "account_volume (transactions (snd (confirm ex_cfg
                  (ex_chain 10123400000000000000) 2000 ''42'' ex_hash ex_intent))) ''42''
                < 10 ^ 20"
      using vol by (simp only: ex_paid_def)
    from paid eq fits nn vol'
    have "\<exists>old. new_Decimal (getUserBalance (transactions ex_intent) ''42'') = Some (Decimal old 6)
            \<and> new_Decimal (getUserBalance (transactions (snd (confirm ex_cfg
                  (ex_chain 10123400000000000000) 2000 ''42'' ex_hash ex_intent))) ''42'')
                = Some (Decimal (old + coeff (rounded 6 (Decimal 101234 4))) 6)"
      by blast
    then obtain old' where
      o1: "new_Decimal (getUserBalance (transactions ex_intent) ''42'') = Some (Decimal old' 6)"
      and o2: "new_Decimal (getUserBalance (transactions (snd (confirm ex_cfg
                  (ex_chain 10123400000000000000) 2000 ''42'' ex_hash ex_intent))) ''42'')
                = Some (Decimal (old' + coeff (rounded 6 (Decimal 101234 4))) 6)"
      by blast
    from o1 old have "old' = 0" by simp
    with o2 show ?thesis
      by (simp add: ex_paid_def ex_expected)
  qed
  have nn: "0 \<le> raw_balance (transactions ex_intent) ''42''" by (simp add: raw0)
  from ex_hash_valid r ne eq fits 1 2 nn vol old 3 show ?thesis
    by (intro conjI)
qed

lemma ex_overdrawn_intent:
  "depositRequests ex_overdrawn ''42''
   = Some \<lparr>dr_amount = ''10.123400'', dr_timestamp = 1000\<rparr>"
  by (simp add: ex_overdrawn_def ex_intent_eq)

lemma ex_overdrawn_before: "getUserBalance (transactions ex_overdrawn) ''42'' = ''0.000000''"
proof -
  have "volume (transactions ex_overdrawn) < 10 ^ 20"
    by (simp add: ex_overdrawn_def volume_def blank_def)
  moreover have "raw_balance (transactions ex_overdrawn) ''42'' = - 9600000"
    by (simp add: ex_overdrawn_def raw_balance_def sum_amounts_def blank_def)
  ultimately show ?thesis by (simp add: getUserBalance_raw zero_rendering)
qed

lemma ex_overdrawn_next: "next_id (transactions ex_overdrawn) = 4"
  by (simp add: ex_overdrawn_def next_id_def blank_def)

lemma ex_overdrawn_after:
  "getUserBalance (transactions ex_overdrawn @ [ex_credit 4 ''42'' 2000]) ''42'' = ''0.523400''"
proof -
  have "volume (transactions ex_overdrawn @ [ex_credit 4 ''42'' 2000]) < 10 ^ 20"
    by (simp add: ex_overdrawn_def volume_def blank_def ex_credit_def)
  moreover have "raw_balance (transactions ex_overdrawn @ [ex_credit 4 ''42'' 2000]) ''42''
                 = 523400"
    by (simp add: ex_overdrawn_def raw_balance_def sum_amounts_def blank_def ex_credit_def)
  moreover have "toFixed 6 (Decimal 523400 6) = ''0.523400''"
    by (simp add: dec_eval)
  ultimately show ?thesis by (simp add: getUserBalance_raw)
qed

lemma ex_half_text: "formatUSDT ''0.523400'' = ''0.523400''"
  by (simp add: formatUSDT_def dec_eval)

text \<open>
  C5, as stated, fails in its last part. An account holds a Completed deposit of 50.4
  and two Pending exchange requests of 30, so that the sum of the balance rule is -9.6
  and the computed balance is 0.000000. Its deposit of exactly the expected 10.1234 is
  verified and recorded, and the computed balance becomes 0.523400: it has grown by
  0.5234, not by the expected amount.
\<close>

theorem deposit_overdrawn_counterexample:
  "depositRequests ex_overdrawn ''42''
     = Some \<lparr>dr_amount = ''10.123400'', dr_timestamp = 1000\<rparr>
   \<and> getUserBalance (transactions ex_overdrawn) ''42'' = ''0.000000''
   \<and> fst (confirm ex_cfg ex_paid 2000 ''42'' ex_hash ex_overdrawn)
       = DepositVerified ''10.123400'' 4 ex_hash ''0.523400''
   \<and> getUserBalance (transactions (snd (confirm ex_cfg ex_paid 2000 ''42'' ex_hash ex_overdrawn)))
       ''42'' = ''0.523400''"
proof -
  have t: "(2000::int) \<le> 1000 + 24 * 60 * 60 * 1000" by simp
  note c = ex_confirm [OF ex_overdrawn_intent t]
  have 1: "fst (confirm ex_cfg ex_paid 2000 ''42'' ex_hash ex_overdrawn)
           = DepositVerified ''10.123400'' 4 ex_hash ''0.523400''"
    unfolding c by (simp add: ex_overdrawn_next ex_overdrawn_after ex_half_text)
  have 2: "getUserBalance (transactions (snd (confirm ex_cfg ex_paid 2000 ''42'' ex_hash
             ex_overdrawn))) ''42'' = ''0.523400''"
    unfolding c by (simp add: ex_overdrawn_next ex_overdrawn_after)
  from ex_overdrawn_intent ex_overdrawn_before 1 2 show ?thesis by simp
qed




section \<open>The withdrawal fee\<close>

lemma ex_funded_registered: "registerUser ''42'' (ex_funded a) = ex_funded a"
  by (simp add: registerUser_def ex_funded_def)

lemma ex_funded_raw: "raw_balance (transactions (ex_funded a)) ''42'' = a"
  by (simp add: raw_balance_def sum_amounts_def ex_funded_def blank_def)

lemma ex_fifty: "new_Decimal ''50'' = Some (Decimal 50 0)"
  by (simp add: dec_eval)

lemma ex_fifty_valid: "isValidAmount ''50''"
  by (simp add: isValidAmount_def ex_fifty greaterThan_d_def lessThan_d_def align_def)

lemma ex_total: "plus_d (Decimal 50 0) (withdrawalFee ex_cfg) = Decimal 504 1"
  by (simp add: ex_cfg_def plus_d_def align_def finalise_small)

lemma ex_total_text: "toFixed 6 (Decimal 504 (Suc 0)) = ''50.400000''"
  by (simp add: dec_eval)

lemma ex_funded_volume: "\<bar>a\<bar> < 10 ^ 20 \<Longrightarrow> volume (transactions (ex_funded a)) < 10 ^ 20"
  by (simp add: volume_def ex_funded_def blank_def)

lemma ex_balance_503: "getUserBalance (transactions (ex_funded 50300000)) ''42'' = ''50.300000''"
proof -
  have "toFixed 6 (Decimal 50300000 6) = ''50.300000''" by (simp add: dec_eval)
  moreover have "volume (transactions (ex_funded 50300000)) < 10 ^ 20"
    by (rule ex_funded_volume) simp
  ultimately show ?thesis by (simp add: getUserBalance_raw ex_funded_raw)
qed

lemma ex_balance_504: "getUserBalance (transactions (ex_funded 50400000)) ''42'' = ''50.400000''"
proof -
  have "toFixed 6 (Decimal 50400000 6) = ''50.400000''" by (simp add: dec_eval)
  moreover have "volume (transactions (ex_funded 50400000)) < 10 ^ 20"
    by (rule ex_funded_volume) simp
  ultimately show ?thesis by (simp add: getUserBalance_raw ex_funded_raw)
qed

lemma ex_short: "lessThan_d (Decimal 50300000 6) (Decimal 504 (Suc 0))"
  by (simp add: lessThan_d_def align_def)

lemma ex_enough: "\<not> lessThan_d (Decimal 50400000 6) (Decimal 504 (Suc 0))"
  by (simp add: lessThan_d_def align_def)

lemma ex_createWithdrawal:
  "createWithdrawal ''42'' ''50'' ex_wallet (withdrawalFee ex_cfg) (ex_funded 50400000)
   = Some (ex_withdrawal, ex_requested)"
proof -
  have "to_column 6 (Decimal 50 0) = 50000000" "to_column 6 (Decimal 4 1) = 400000"
    by (simp_all add: to_column_def rounded_def rescale_def)
  moreover have "next_id (transactions (ex_funded 50400000)) = 2"
    by (simp add: next_id_def ex_funded_def blank_def)
  ultimately show ?thesis
    by (simp add: createWithdrawal_def ex_fifty create_def Let_def ex_cfg_def
        ex_withdrawal_def ex_requested_def blank_def)
qed

lemma ex_refused_balance:
  "getUserBalance (transactions (ex_refused e)) ''42'' = ''50.400000''"
proof -
  have "raw_balance (transactions (ex_refused e)) ''42'' = 50400000"
    by (simp add: raw_balance_def sum_amounts_def ex_refused_def ex_funded_def ex_failed_def
        ex_withdrawal_def blank_def)
  moreover have "volume (transactions (ex_refused e)) < 10 ^ 20"
    by (simp add: volume_def ex_refused_def ex_funded_def ex_failed_def ex_withdrawal_def
        blank_def)
  moreover have "toFixed 6 (Decimal 50400000 6) = ''50.400000''" by (simp add: dec_eval)
  ultimately show ?thesis by (simp add: getUserBalance_raw)
qed

lemma ex_mined_balance:
  "getUserBalance
     (transactions (save (ex_withdrawal\<lparr>status := completed, txHash := Some ex_hash_out\<rparr>)
        ex_requested)) ''42'' = ''0.400000''"
proof -
  have "raw_balance
     (transactions (save (ex_withdrawal\<lparr>status := completed, txHash := Some ex_hash_out\<rparr>)
        ex_requested)) ''42'' = 400000"
    by (simp add: raw_balance_def sum_amounts_def save_def ex_requested_def ex_funded_def
        ex_withdrawal_def blank_def)
  moreover have "volume
     (transactions (save (ex_withdrawal\<lparr>status := completed, txHash := Some ex_hash_out\<rparr>)
        ex_requested)) < 10 ^ 20"
    by (simp add: volume_def save_def ex_requested_def ex_funded_def ex_withdrawal_def
        blank_def)
  moreover have "toFixed 6 (Decimal 400000 6) = ''0.400000''" by (simp add: dec_eval)
  ultimately show ?thesis by (simp add: getUserBalance_raw)
qed

text \<open>
  C4, on the code. With the fee at 0.4, a withdrawal of 50 from a balance of 50.3 is
  refused for insufficient balance: 50.4 is needed. From a balance of exactly 50.4 the
  request passes the balance check and the record is created, but the processing fails
  when it computes the gas limit: the answer is that the withdrawal failed, no transfer
  is sent, the record ends Failed, and the computed balance is still 50.400000, not 0.
  Apart from that, the balance rule subtracts the amount of a withdrawal and never its
  fee: on the ledger in which this withdrawal stands as Completed the computed balance is
  0.400000.
\<close>

theorem withdrawal_at_exact_balance_fails:
  "withdraw ex_cfg (ex_chain 0) 7 ''42'' ''50'' ex_wallet (ex_funded 50300000)
     = (InsufficientBalance ''50.400000'' ''50.300000'', ex_funded 50300000)
   \<and> withdraw ex_cfg (ex_chain 0) 7 ''42'' ''50'' ex_wallet (ex_funded 50400000)
       = (WithdrawalFailed mixed_types_error, ex_refused mixed_types_error)
   \<and> findByPk 2 (ex_refused mixed_types_error) = Some (ex_failed mixed_types_error)
   \<and> status (ex_failed mixed_types_error) = failed
   \<and> submitted (ex_refused mixed_types_error) = []
   \<and> getUserBalance (transactions (ex_refused mixed_types_error)) ''42'' = ''50.400000''
   \<and> getUserBalance
       (transactions (save (ex_withdrawal\<lparr>status := completed, txHash := Some ex_hash_out\<rparr>)
          ex_requested)) ''42'' = ''0.400000''"
proof -
  have addr: "isAddress (ex_chain 0) ex_wallet" by (simp add: ex_chain_def)
  have v503: "volume (transactions (ex_funded 50300000)) < 10 ^ 20"
    by (rule ex_funded_volume) simp
  have v504: "volume (transactions (ex_funded 50400000)) < 10 ^ 20"
    by (rule ex_funded_volume) simp
  have p503: "new_Decimal ''50.300000'' = Some (Decimal 50300000 6)"
    using balance_reads [OF v503, of "''42''"]
    by (simp add: ex_balance_503 ex_funded_raw)
  have p504: "new_Decimal ''50.400000'' = Some (Decimal 50400000 6)"
    using balance_reads [OF v504, of "''42''"]
    by (simp add: ex_balance_504 ex_funded_raw)
  have f503: "formatUSDT ''50.300000'' = ''50.300000''"
    using formatUSDT_balance [OF v503, of "''42''"]
    by (simp add: ex_balance_503)
  have refused: "withdraw ex_cfg (ex_chain 0) 7 ''42'' ''50'' ex_wallet (ex_funded 50300000)
     = (InsufficientBalance ''50.400000'' ''50.300000'', ex_funded 50300000)"
    by (simp add: withdraw_def Let_def ex_funded_registered ex_fifty_valid addr ex_balance_503
        ex_fifty p503 ex_total ex_short ex_total_text f503)
  have failed: "withdraw ex_cfg (ex_chain 0) 7 ''42'' ''50'' ex_wallet (ex_funded 50400000)
     = (WithdrawalFailed mixed_types_error, ex_refused mixed_types_error)"
    by (simp add: withdraw_def Let_def ex_funded_registered ex_fifty_valid addr ex_balance_504
        ex_fifty p504 ex_total ex_enough ex_createWithdrawal ex_process)
  have st: "status (ex_failed mixed_types_error) = failed" by (simp add: ex_failed_def)
  have sub: "submitted (ex_refused mixed_types_error) = []"
    by (simp add: ex_refused_def ex_funded_def)
  from refused failed ex_refused_find [of mixed_types_error] st sub
    ex_refused_balance [of mixed_types_error] ex_mined_balance
  show ?thesis by (intro conjI)
qed

section \<open>Formatting and reading back\<close>

lemma rounded_exact:
  assumes "scale d \<le> dp"
  shows "equals_d (rounded dp d) d"
proof -
  have "coeff (rounded dp d) = coeff d * 10 ^ (dp - scale d)"
    using assms by (simp add: rounded_def rescale_def nat_mult_distrib abs_mult)
  then show ?thesis
    using assms by (simp add: equals_d_def align_def rounded_def max_def)
qed

lemma valid_iff_positive:
  "isValidAmount (toFixed dp d) \<longleftrightarrow> 0 < coeff (rounded dp d)"
  by (simp add: isValidAmount_def new_Decimal_toFixed greaterThan_d_def lessThan_d_def
      align_def zero_less_mult_iff)

lemma toFixed_shape:
  assumes "0 < dp"
  shows "\<exists>ip fp. toFixed dp d = (if coeff d < 0 then ''-'' else '''') @ ip @ ''.'' @ fp
           \<and> ip \<noteq> [] \<and> all_digits ip \<and> all_digits fp \<and> length fp = dp"
proof -
  let ?m = "rescale dp d"
  have "toFixed dp d = (if coeff d < 0 then ''-'' else '''') @ int_digits (?m div 10 ^ dp)
          @ ''.'' @ frac_digits dp (?m mod 10 ^ dp)"
    using assms by (simp add: toFixed_def Let_def)
  then show ?thesis
    using int_digits_nonempty all_digits_int_digits all_digits_frac_digits length_frac_digits
    by blast
qed

lemma half_up:
  fixes a u :: nat
  assumes "0 < u"
  shows "2 * ((2 * a + u) div (2 * u)) * u \<le> 2 * a + u"
    and "2 * a + u < 2 * ((2 * a + u) div (2 * u) + 1) * u"
proof -
  let ?q = "(2 * a + u) div (2 * u)"
  have e: "2 * n * u = n * (2 * u)" for n :: nat by simp
  have "?q * (2 * u) \<le> 2 * a + u" by (rule div_times_less_eq_dividend)
  then show "2 * ?q * u \<le> 2 * a + u" by (simp only: e)
  have "2 * a + u < (?q + 1) * (2 * u)"
    using assms dividend_less_div_times [of "2 * u" "2 * a + u"] by simp
  then show "2 * a + u < 2 * (?q + 1) * u" by (simp only: e)
qed

text \<open>
  C8, as stated, fails twice. The validator of amounts rejects the rendering of zero,
  and an amount with a seventh fractional digit comes back rounded: 1.0000005 renders as
  1.000001, which is not the amount that went in.
\<close>

theorem roundtrip_counterexample:
  "formatUSDT ''0'' = ''0.000000'' \<and> \<not> isValidAmount (formatUSDT ''0'')
   \<and> new_Decimal ''1.0000005'' = Some (Decimal 10000005 7)
   \<and> formatUSDT ''1.0000005'' = ''1.000001''
   \<and> new_Decimal (formatUSDT ''1.0000005'') = Some (Decimal 1000001 6)
   \<and> \<not> equals_d (Decimal 1000001 6) (Decimal 10000005 7)"
proof -
  have z: "new_Decimal ''0'' = Some (Decimal 0 0)" by (simp add: dec_eval)
  have zt: "toFixed 6 (Decimal 0 0) = ''0.000000''" by (simp add: dec_eval)
  have zr: "rounded 6 (Decimal 0 0) = Decimal 0 6" by (simp add: rounded_def rescale_def)
  have f0: "formatUSDT ''0'' = ''0.000000''" by (simp add: formatUSDT_def z zt)
  have v0: "\<not> isValidAmount (formatUSDT ''0'')"
    using valid_iff_positive [of 6 "Decimal 0 0"] by (simp add: f0 zt zr)
  have p: "new_Decimal ''1.0000005'' = Some (Decimal 10000005 7)" by (simp add: dec_eval)
  have t: "toFixed 6 (Decimal 10000005 7) = ''1.000001''" by (simp add: dec_eval)
  have r: "rounded 6 (Decimal 10000005 7) = Decimal 1000001 6"
    by (simp add: rounded_def rescale_def)
  have f: "formatUSDT ''1.0000005'' = ''1.000001''" by (simp add: formatUSDT_def p t)
  have b: "new_Decimal (formatUSDT ''1.0000005'') = Some (Decimal 1000001 6)"
    using new_Decimal_toFixed [of 6 "Decimal 10000005 7"] by (simp add: f t r)
  have n: "\<not> equals_d (Decimal 1000001 6) (Decimal 10000005 7)"
    by (simp add: equals_d_def align_def)
  show ?thesis using f0 v0 p f b n by simp
qed

text \<open>
  C8, amended. A token amount renders as its value rounded to six fractional digits,
  half-up on the magnitude, with exactly six digits after the point. Reading the
  rendering back gives the rounded amount, which is the amount itself whenever that has
  at most six fractional digits. The validator of amounts accepts the rendering exactly
  when the rounded amount is greater than zero.
\<close>

theorem formatUSDT_roundtrip:
  assumes "new_Decimal s = Some d"
  shows "formatUSDT s = toFixed 6 d
       \<and> new_Decimal (formatUSDT s) = Some (rounded 6 d)
       \<and> (scale d \<le> 6 \<longrightarrow> equals_d (rounded 6 d) d)
       \<and> (isValidAmount (formatUSDT s) \<longleftrightarrow> 0 < coeff (rounded 6 d))
       \<and> (\<exists>ip fp. formatUSDT s = (if coeff d < 0 then ''-'' else '''') @ ip @ ''.'' @ fp
              \<and> ip \<noteq> [] \<and> all_digits ip \<and> all_digits fp \<and> length fp = 6)
       \<and> \<bar>coeff (rounded 6 d)\<bar> = int (rescale 6 d)
       \<and> (6 < scale d \<longrightarrow>
             2 * rescale 6 d * 10 ^ (scale d - 6) \<le> 2 * nat \<bar>coeff d\<bar> + 10 ^ (scale d - 6)
             \<and> 2 * nat \<bar>coeff d\<bar> + 10 ^ (scale d - 6)
                 < 2 * (rescale 6 d + 1) * 10 ^ (scale d - 6))"
proof -
  have f: "formatUSDT s = toFixed 6 d"
    using assms by (simp add: formatUSDT_def)
  have up: "2 * rescale 6 d * 10 ^ (scale d - 6) \<le> 2 * nat \<bar>coeff d\<bar> + 10 ^ (scale d - 6)
             \<and> 2 * nat \<bar>coeff d\<bar> + 10 ^ (scale d - 6)
                 < 2 * (rescale 6 d + 1) * 10 ^ (scale d - 6)"
    if "6 < scale d"
  proof -
    have r: "rescale 6 d = (2 * nat \<bar>coeff d\<bar> + 10 ^ (scale d - 6)) div (2 * 10 ^ (scale d - 6))"
      using that by (simp add: rescale_def Let_def)
    have "(0::nat) < 10 ^ (scale d - 6)" by simp
    from half_up [OF this, of "nat \<bar>coeff d\<bar>"] show ?thesis
      unfolding r by blast
  qed
  have shape: "\<exists>ip fp. toFixed 6 d = (if coeff d < 0 then ''-'' else '''') @ ip @ ''.'' @ fp
              \<and> ip \<noteq> [] \<and> all_digits ip \<and> all_digits fp \<and> length fp = 6"
    by (rule toFixed_shape) simp
  have mag: "\<bar>coeff (rounded 6 d)\<bar> = int (rescale 6 d)"
    by (simp add: rounded_def)
  show ?thesis
    unfolding f using up shape mag
    by (simp add: new_Decimal_toFixed rounded_exact valid_iff_positive)
qed

theorem formatUSDT_roundtrip_witness:
  "new_Decimal ''1.0000005'' = Some (Decimal 10000005 7)
   \<and> formatUSDT ''1.0000005'' = ''1.000001''
   \<and> new_Decimal (formatUSDT ''1.0000005'') = Some (Decimal 1000001 6)
   \<and> isValidAmount (formatUSDT ''1.0000005'')
   \<and> new_Decimal ''50'' = Some (Decimal 50 0)
   \<and> new_Decimal (formatUSDT ''50'') = Some (Decimal 50000000 6)
   \<and> equals_d (Decimal 50000000 6) (Decimal 50 0)"
proof -
  have p: "new_Decimal ''1.0000005'' = Some (Decimal 10000005 7)" by (simp add: dec_eval)
  have t: "toFixed 6 (Decimal 10000005 7) = ''1.000001''" by (simp add: dec_eval)
  have r: "rounded 6 (Decimal 10000005 7) = Decimal 1000001 6"
    by (simp add: rounded_def rescale_def)
  have r50: "rounded 6 (Decimal 50 0) = Decimal 50000000 6"
    by (simp add: rounded_def rescale_def)
  from formatUSDT_roundtrip [OF p]
  have a: "formatUSDT ''1.0000005'' = toFixed 6 (Decimal 10000005 7)"
    "new_Decimal (formatUSDT ''1.0000005'') = Some (rounded 6 (Decimal 10000005 7))"
    "isValidAmount (formatUSDT ''1.0000005'') \<longleftrightarrow> 0 < coeff (rounded 6 (Decimal 10000005 7))"
    by blast+
  from formatUSDT_roundtrip [OF ex_fifty]
  have b: "new_Decimal (formatUSDT ''50'') = Some (rounded 6 (Decimal 50 0))"
    "scale (Decimal 50 0) \<le> 6 \<longrightarrow> equals_d (rounded 6 (Decimal 50 0)) (Decimal 50 0)"
    by blast+
  have f: "formatUSDT ''1.0000005'' = ''1.000001''"
    using a(1) by (simp add: t)
  have reread: "new_Decimal ''1.000001'' = Some (Decimal 1000001 6)"
    using a(2) by (simp add: f r)
  have valid: "isValidAmount ''1.000001''"
    using a(3) by (simp add: f r)
  show ?thesis
    using b(2) by (simp add: p ex_fifty f reread valid b(1) r50)
qed

section \<open>Conversion to fiat\<close>

lemma normalise_numeral:
  "normalise (numeral k) p q x =
     (if p < q * 2 ^ 52 then normalise (pred_numeral k) (2 * p) q (x - 1)
      else if q * 2 ^ 53 \<le> p then normalise (pred_numeral k) p (2 * q) (x + 1)
      else (p, q, x))"
proof -
  have "numeral k = Suc (pred_numeral k)" by (rule numeral_eq_Suc)
  then show ?thesis by (simp only: normalise.simps)
qed

lemmas float_eval = parseFloat_def exponent_of_def is_space_def is_digit_def digit_val_def
  nat_of_digits_def Let_def

lemma ex_amount_read: "parseFloat ''1.005'' = nearest False 1005 1000"
  by (simp add: float_eval)

lemma ex_rate_read: "parseFloat ''1.000000'' = nearest False 1000000 1000000"
  by (simp add: float_eval)

lemma ex_amount_number: "parseFloat ''1.005'' = Finite False 4526117625507348 (- 52)"
proof -
  have "normalise 2200 1005 1000 0 = (1005 * 2 ^ 52, 1000, - 52)"
    by (simp add: normalise_numeral)
  moreover have "round_half_even (1005 * 2 ^ 52) 1000 = 4526117625507348"
    by (simp add: round_half_even_def Let_def)
  ultimately show ?thesis by (simp add: ex_amount_read nearest_def)
qed

lemma ex_rate_number: "parseFloat ''1.000000'' = Finite False 4503599627370496 (- 52)"
proof -
  have "normalise 2200 1000000 1000000 0 = (1000000 * 2 ^ 52, 1000000, - 52)"
    by (simp add: normalise_numeral)
  moreover have "round_half_even (1000000 * 2 ^ 52) 1000000 = 4503599627370496"
    by (simp add: round_half_even_def Let_def)
  ultimately show ?thesis by (simp add: ex_rate_read nearest_def)
qed

lemma ex_product_number:
  "times_n (Finite False 4526117625507348 (- 52)) (Finite False 4503599627370496 (- 52))
   = Finite False 4526117625507348 (- 52)"
proof -
  have "normalise 2200 (4526117625507348 * 4503599627370496) (2 ^ 104) 0
        = (4526117625507348 * 4503599627370496 * 2 ^ 52, 2 ^ 104, - 52)"
    by (simp add: normalise_numeral)
  moreover have "round_half_even (4526117625507348 * 4503599627370496 * 2 ^ 52) (2 ^ 104)
                 = 4526117625507348"
    by (simp add: round_half_even_def Let_def)
  ultimately show ?thesis by (simp add: nearest_def)
qed

lemma ex_product_text: "toFixed_n 2 (Finite False 4526117625507348 (- 52)) = ''1.00''"
  by (simp add: Let_def int_digits_small frac_digits_numeral digit_char_def)

lemma ex_rate_text: "toFixed 6 (Decimal 1000000 6) = ''1.000000''"
  by (simp add: dec_eval)

lemma ex_default_rates:
  "getCurrentRates (ex_funded a)
   = (\<lparr>rateUSD = 1000000, rateUAH = 39500000\<rparr>,
      (ex_funded a)\<lparr>rates := Some \<lparr>rateUSD = 1000000, rateUAH = 39500000\<rparr>\<rparr>)"
  by (simp add: getCurrentRates_def ex_funded_def Let_def)

lemma ex_exact_text: "toFixed 2 (times_d (Decimal 1005 3) (Decimal 1000000 6)) = ''1.01''"
proof -
  have "times_d (Decimal 1005 3) (Decimal 1000000 6) = Decimal 1005000000 9"
    by (simp add: times_d_def finalise_small)
  moreover have "toFixed 2 (Decimal 1005000000 9) = ''1.01''"
    by (simp add: dec_eval)
  ultimately show ?thesis by simp
qed

text \<open>
  C6, on the code. \<open>convertToFiat\<close> multiplies doubles: for 1.005 USDT at the rate
  1.000000 it returns 1.00, because the double next to 1.005 lies below it. The exact
  product, 1.005, rounds half-up to 1.01, and that is what the exchange service, which
  multiplies Decimals, stores for the same request.
\<close>

theorem convertToFiat_uses_doubles:
  "fst (convertToFiat ''1.005'' USD (ex_funded 50400000)) = ''1.00''
   \<and> toFixed 2 (times_d (Decimal 1005 3) (Decimal 1000000 6)) = ''1.01''
   \<and> fst (processExchangeRequest ''42'' ''1.005'' USD (ex_funded 50400000))
       = ExchangeCreated ex_converted ''1.01''"
proof -
  have float: "fst (convertToFiat ''1.005'' USD (ex_funded 50400000)) = ''1.00''"
    by (simp add: convertToFiat_def ex_default_rates ex_rate_text ex_amount_number
        ex_rate_number ex_product_number ex_product_text del: toFixed_n.simps times_n.simps)
  have user: "''42'' \<in> users (ex_funded 50400000)" by (simp add: ex_funded_def)
  have amt: "new_Decimal ''1.005'' = Some (Decimal 1005 3)" by (simp add: dec_eval)
  have bal: "new_Decimal ''50.400000'' = Some (Decimal 50400000 6)"
  proof -
    have "volume (transactions (ex_funded 50400000)) < 10 ^ 20"
      by (rule ex_funded_volume) simp
    from balance_reads [OF this, of "''42''"] show ?thesis
      by (simp add: ex_balance_504 ex_funded_raw)
  qed
  have fits: "\<not> greaterThan_d (Decimal 1005 3) (Decimal 50400000 6)"
    by (simp add: greaterThan_d_def lessThan_d_def align_def)
  have fiat: "new_Decimal ''1.01'' = Some (Decimal 101 2)" by (simp add: dec_eval)
  have cols: "to_column 6 (Decimal 1005 3) = 1005000" "to_column 2 (Decimal 101 2) = 101"
    by (simp_all add: to_column_def rounded_def rescale_def)
  have nid: "next_id (transactions (ex_funded 50400000)) = 2"
    by (simp add: next_id_def ex_funded_def blank_def)
  have cr: "createExchange ''42'' ''1.005'' ''1.01'' USD
              ((ex_funded 50400000)\<lparr>rates := Some \<lparr>rateUSD = 1000000, rateUAH = 39500000\<rparr>\<rparr>)
            = Some (ex_converted,
                ((ex_funded 50400000)\<lparr>rates := Some \<lparr>rateUSD = 1000000, rateUAH = 39500000\<rparr>,
                   transactions := transactions (ex_funded 50400000) @ [ex_converted]\<rparr>))"
    by (simp add: createExchange_def amt fiat cols create_def Let_def nid ex_converted_def
        blank_def)
  have exact: "fst (processExchangeRequest ''42'' ''1.005'' USD (ex_funded 50400000))
       = ExchangeCreated ex_converted ''1.01''"
    by (simp add: processExchangeRequest_def user Let_def ex_balance_504 amt bal fits
        ex_default_rates ex_exact_text cr)
  show ?thesis using float ex_exact_text exact by simp
qed

end
